theory Spec2Isabelle
  imports Complex_Main "HOL-Library.Sublist"
begin

section \<open>JavaScript strings\<close>

text \<open>
  A JavaScript string is modelled as a \<^typ>\<open>string\<close>: a list of code units, so that
  \<open>length\<close> is \<open>.length\<close>, \<open>take n\<close> is \<open>.slice(0, n)\<close> and \<open>.substring(0, n)\<close>.
\<close>

text \<open>\<open>s.includes(t)\<close>: \<open>t\<close> occurs in \<open>s\<close> at some position.\<close>

fun str_includes :: "string \<Rightarrow> string \<Rightarrow> bool" where
  "str_includes [] t = (t = [])"
| "str_includes (c # cs) t = (prefix t (c # cs) \<or> str_includes cs t)"

text \<open>\<open>parts.join(sep)\<close>.\<close>

fun join :: "string \<Rightarrow> string list \<Rightarrow> string" where
  "join sep [] = []"
| "join sep [x] = x"
| "join sep (x # y # ys) = x @ sep @ join sep (y # ys)"

text \<open>\<open>s.toLowerCase()\<close>, on ASCII letters.\<close>

definition to_lower_char :: "char \<Rightarrow> char" where
  "to_lower_char c =
     (if 65 \<le> (of_char c :: nat) \<and> (of_char c :: nat) \<le> 90 then char_of (of_char c + 32 :: nat) else c)"

definition toLowerCase :: "string \<Rightarrow> string" where
  "toLowerCase s = map to_lower_char s"

text \<open>A thrown exception, with its message.\<close>

datatype js_error = JsError string

section \<open>Console ring buffer (src/utils/console-capture.ts)\<close>

datatype level = Error | Warn

record ConsoleEntry =
  level :: level
  message :: string
  timestamp :: int

text \<open>
  One argument of a \<open>console.error\<close>/\<open>console.warn\<close> call, by the three branches of the
  serialiser in \<open>addToBuffer\<close>:
  an \<open>Error\<close> instance with its \<open>name\<close>, \<open>message\<close> and optional \<open>stack\<close>;
  any other value whose \<open>typeof\<close> is \<open>'object'\<close>, with the outcome of
  \<open>JSON.stringify(arg, null, 2)\<close> (\<open>None\<close> when it throws) and of \<open>String(arg)\<close>;
  any other value, with \<open>String(arg)\<close>.
\<close>

datatype console_arg =
    ErrorArg string string "string option"
  | ObjectArg "string option" string
  | OtherArg string

definition MAX_BUFFER_SIZE :: nat where
  "MAX_BUFFER_SIZE = 50"

definition MAX_AGE_MS :: int where
  "MAX_AGE_MS = 60000"

definition REPORTER_TAG :: string where
  "REPORTER_TAG = ''[ContextReporter]''"

text \<open>The callback of \<open>args.map(...)\<close>; \<open>arg.stack || ''\<close> is empty for a missing stack.\<close>

fun serialize_arg :: "console_arg \<Rightarrow> string" where
  "serialize_arg (ErrorArg name msg stack) =
     name @ '': '' @ msg @ [CHR 0x0A] @ (case stack of None \<Rightarrow> [] | Some s \<Rightarrow> s)"
| "serialize_arg (ObjectArg json str) = (case json of Some s \<Rightarrow> s | None \<Rightarrow> str)"
| "serialize_arg (OtherArg str) = str"

definition serialize_args :: "console_arg list \<Rightarrow> string" where
  "serialize_args args = join '' '' (map serialize_arg args)"

text \<open>\<open>while (consoleBuffer.length > MAX_BUFFER_SIZE) consoleBuffer.shift()\<close>.\<close>

function trimBuffer :: "ConsoleEntry list \<Rightarrow> ConsoleEntry list" where
  "trimBuffer buf = (if length buf > MAX_BUFFER_SIZE then trimBuffer (tl buf) else buf)"
  by pat_completeness auto
termination
  by (relation "measure length") auto

declare trimBuffer.simps [simp del]

text \<open>The entry that \<open>addToBuffer\<close> pushes for a message, at time \<open>now = Date.now()\<close>.\<close>

definition mkEntry :: "level \<Rightarrow> string \<Rightarrow> int \<Rightarrow> ConsoleEntry" where
  "mkEntry lvl msg now = \<lparr> level = lvl, message = take 1000 msg, timestamp = now \<rparr>"

definition addToBuffer :: "level \<Rightarrow> console_arg list \<Rightarrow> int \<Rightarrow> ConsoleEntry list \<Rightarrow> ConsoleEntry list" where
  "addToBuffer lvl args now buf =
     (let msg = serialize_args args in
      if str_includes msg REPORTER_TAG then buf
      else trimBuffer (buf @ [mkEntry lvl msg now]))"

text \<open>
  The module state: the buffer and the \<open>isIntercepting\<close> flag. \<open>nativeCalls\<close> records what
  reaches the original \<open>console.error\<close>/\<open>console.warn\<close>.
\<close>

record capture_state =
  consoleBuffer :: "ConsoleEntry list"
  isIntercepting :: bool
  nativeCalls :: "(level \<times> console_arg list) list"

definition startConsoleCapture :: "capture_state \<Rightarrow> capture_state" where
  "startConsoleCapture st = (if isIntercepting st then st else st\<lparr>isIntercepting := True\<rparr>)"

definition stopConsoleCapture :: "capture_state \<Rightarrow> capture_state" where
  "stopConsoleCapture st = (if \<not> isIntercepting st then st else st\<lparr>isIntercepting := False\<rparr>)"

text \<open>
  A call of \<open>console.error\<close> (\<open>Error\<close>) or \<open>console.warn\<close> (\<open>Warn\<close>) at time \<open>now\<close>: the
  installed wrapper buffers and then calls the original; with no wrapper installed only
  the original runs.
\<close>

definition console_call :: "level \<Rightarrow> console_arg list \<Rightarrow> int \<Rightarrow> capture_state \<Rightarrow> capture_state" where
  "console_call lvl args now st =
     (if isIntercepting st
      then st\<lparr>consoleBuffer := addToBuffer lvl args now (consoleBuffer st),
              nativeCalls := nativeCalls st @ [(lvl, args)]\<rparr>
      else st\<lparr>nativeCalls := nativeCalls st @ [(lvl, args)]\<rparr>)"

definition getRecentConsoleEntries :: "int \<Rightarrow> int \<Rightarrow> capture_state \<Rightarrow> ConsoleEntry list" where
  "getRecentConsoleEntries maxAge now st =
     filter (\<lambda>entry. timestamp entry > now - maxAge) (consoleBuffer st)"

definition clearConsoleBuffer :: "capture_state \<Rightarrow> capture_state" where
  "clearConsoleBuffer st = st\<lparr>consoleBuffer := []\<rparr>"

text \<open>A sequence of console calls, each \<open>(level, args, now)\<close>, in order.\<close>

fun console_calls :: "(level \<times> console_arg list \<times> int) list \<Rightarrow> capture_state \<Rightarrow> capture_state" where
  "console_calls [] st = st"
| "console_calls ((lvl, args, now) # cs) st = console_calls cs (console_call lvl args now st)"

text \<open>The entry a call contributes when it is buffered.\<close>

definition entry_of :: "level \<times> console_arg list \<times> int \<Rightarrow> ConsoleEntry" where
  "entry_of c = (case c of (lvl, args, now) \<Rightarrow> mkEntry lvl (serialize_args args) now)"

definition buffered :: "level \<times> console_arg list \<times> int \<Rightarrow> bool" where
  "buffered c = (case c of (lvl, args, now) \<Rightarrow> \<not> str_includes (serialize_args args) REPORTER_TAG)"

section \<open>JavaScript values\<close>

text \<open>
  The values that flow through component properties, hook cells and store state.
  A number is held as the text that \<open>String(n)\<close> gives for it (\<open>42\<close>, \<open>-0.5\<close>,
  \<open>1e+21\<close>, \<open>NaN\<close>, \<open>Infinity\<close>; negative zero prints as \<open>0\<close>); \<open>JFun\<close> is any
  function; objects are plain objects with their own enumerable properties in
  \<open>Object.keys\<close> order. Values are finite trees: a cyclic object is outside the model.
\<close>

datatype jsval =
    JUndefined
  | JNull
  | JBool bool
  | JNum string
  | JBigInt int
  | JStr string
  | JFun
  | JArr "jsval list"
  | JObj "(string \<times> jsval) list"

text \<open>\<open>typeof v === 'object'\<close> (true of \<open>null\<close>, arrays and objects).\<close>

fun typeof_object :: "jsval \<Rightarrow> bool" where
  "typeof_object JNull = True"
| "typeof_object (JArr _) = True"
| "typeof_object (JObj _) = True"
| "typeof_object _ = False"

text \<open>Truthiness, as in \<open>if (v)\<close> and \<open>v && ...\<close>.\<close>

fun truthy :: "jsval \<Rightarrow> bool" where
  "truthy JUndefined = False"
| "truthy JNull = False"
| "truthy (JBool b) = b"
| "truthy (JNum n) = (n \<noteq> ''0'' \<and> n \<noteq> ''NaN'')"
| "truthy (JBigInt n) = (n \<noteq> 0)"
| "truthy (JStr s) = (s \<noteq> [])"
| "truthy _ = True"

text \<open>\<open>Object.keys(v).length\<close> for an object or an array.\<close>

fun keys_length :: "jsval \<Rightarrow> nat" where
  "keys_length (JObj kvs) = length kvs"
| "keys_length (JArr xs) = length xs"
| "keys_length _ = 0"

text \<open>
  \<open>k in v\<close> for the property names the code tests (none of them is a property of an
  array or of a prototype), and \<open>v[k]\<close>, \<open>undefined\<close> for a missing property.
\<close>

fun has_key :: "string \<Rightarrow> jsval \<Rightarrow> bool" where
  "has_key k (JObj kvs) = (k \<in> set (map fst kvs))"
| "has_key k _ = False"

fun get_prop :: "jsval \<Rightarrow> string \<Rightarrow> jsval" where
  "get_prop (JObj kvs) k = (case map_of kvs k of Some v \<Rightarrow> v | None \<Rightarrow> JUndefined)"
| "get_prop _ k = JUndefined"

text \<open>
  The order of an object's own string keys: the array indices (canonical decimal texts
  of integers up to \<open>2^32 - 2\<close>) in ascending numeric order, then every other key in
  the order of its creation.
\<close>

definition is_digit :: "char \<Rightarrow> bool" where
  "is_digit c = (48 \<le> (of_char c :: nat) \<and> (of_char c :: nat) \<le> 57)"

definition digits_value :: "string \<Rightarrow> int" where
  "digits_value s = foldl (\<lambda>acc c. 10 * acc + (of_char c - 48)) 0 s"

definition array_index :: "string \<Rightarrow> int option" where
  "array_index k =
     (if k \<noteq> [] \<and> list_all is_digit k \<and> (k = ''0'' \<or> hd k \<noteq> CHR ''0'') \<and>
         length k \<le> 10 \<and> digits_value k \<le> 4294967294
      then Some (digits_value k) else None)"

text \<open>Whether a new key with array index \<open>i\<close> goes before the entry with key \<open>k'\<close>.\<close>

definition goes_before :: "int \<Rightarrow> string \<Rightarrow> bool" where
  "goes_before i k' = (case array_index k' of None \<Rightarrow> True | Some j \<Rightarrow> i < j)"

fun insert_index :: "int \<Rightarrow> string \<Rightarrow> 'a \<Rightarrow> (string \<times> 'a) list \<Rightarrow> (string \<times> 'a) list" where
  "insert_index i k v [] = [(k, v)]"
| "insert_index i k v ((k', v') # kvs) =
     (if goes_before i k' then (k, v) # (k', v') # kvs
      else (k', v') # insert_index i k v kvs)"

text \<open>
  \<open>obj[k] = v\<close> on a plain object: an existing key keeps its place; a new key takes
  its place in the order above.
\<close>

definition set_prop :: "string \<Rightarrow> 'a \<Rightarrow> (string \<times> 'a) list \<Rightarrow> (string \<times> 'a) list" where
  "set_prop k v kvs =
     (if k \<in> set (map fst kvs) then map (\<lambda>kv. if fst kv = k then (k, v) else kv) kvs
      else case array_index k of
        None \<Rightarrow> kvs @ [(k, v)]
      | Some i \<Rightarrow> insert_index i k v kvs)"

subsection \<open>Decimal rendering of lengths\<close>

definition digit_char :: "nat \<Rightarrow> char" where
  "digit_char d = char_of (48 + d)"

function string_of_nat :: "nat \<Rightarrow> string" where
  "string_of_nat n = (if n < 10 then [digit_char n] else string_of_nat (n div 10) @ [digit_char (n mod 10)])"
  by pat_completeness auto
termination
  by (relation "measure id") auto

declare string_of_nat.simps [simp del]

subsection \<open>\<open>JSON.stringify\<close>\<close>

text \<open>
  \<open>JSON.stringify(v)\<close> without indentation: \<open>Threw\<close> when a \<open>BigInt\<close> occurs
  (\<open>TypeError\<close>), \<open>NoText\<close> when the result is \<open>undefined\<close> (for \<open>undefined\<close> and
  functions at the top), else the text. Inside an array \<open>undefined\<close> and functions become
  \<open>null\<close>; inside an object their members are left out. A number that is not finite
  is written as \<open>null\<close>.
\<close>

datatype stringified = Threw | NoText | Text string

definition hex_digit :: "nat \<Rightarrow> char" where
  "hex_digit d = (if d < 10 then char_of (48 + d) else char_of (87 + d))"

definition json_escape_char :: "char \<Rightarrow> string" where
  "json_escape_char c =
     (if c = CHR 0x22 then [CHR 0x5C, CHR 0x22]
      else if c = CHR 0x5C then [CHR 0x5C, CHR 0x5C]
      else if c = CHR 0x08 then [CHR 0x5C, CHR ''b'']
      else if c = CHR 0x0C then [CHR 0x5C, CHR ''f'']
      else if c = CHR 0x0A then [CHR 0x5C, CHR ''n'']
      else if c = CHR 0x0D then [CHR 0x5C, CHR ''r'']
      else if c = CHR 0x09 then [CHR 0x5C, CHR ''t'']
      else if (of_char c :: nat) < 32
        then [CHR 0x5C, CHR ''u'', CHR ''0'', CHR ''0'',
              hex_digit (of_char c div 16), hex_digit (of_char c mod 16)]
      else [c])"

definition json_string :: "string \<Rightarrow> string" where
  "json_string s = [CHR 0x22] @ concat (map json_escape_char s) @ [CHR 0x22]"

fun JSON_stringify :: "jsval \<Rightarrow> stringified"
  and stringify_elements :: "jsval list \<Rightarrow> string list option"
  and stringify_members :: "(string \<times> jsval) list \<Rightarrow> string list option"
where
  "JSON_stringify JUndefined = NoText"
| "JSON_stringify JFun = NoText"
| "JSON_stringify JNull = Text ''null''"
| "JSON_stringify (JBool b) = Text (if b then ''true'' else ''false'')"
| "JSON_stringify (JNum n) =
     Text (if n = ''NaN'' \<or> n = ''Infinity'' \<or> n = ''-Infinity'' then ''null'' else n)"
| "JSON_stringify (JBigInt n) = Threw"
| "JSON_stringify (JStr s) = Text (json_string s)"
| "JSON_stringify (JArr xs) =
     (case stringify_elements xs of
        None \<Rightarrow> Threw
      | Some parts \<Rightarrow> Text (''['' @ join '','' parts @ '']''))"
| "JSON_stringify (JObj kvs) =
     (case stringify_members kvs of
        None \<Rightarrow> Threw
      | Some parts \<Rightarrow> Text (''{'' @ join '','' parts @ ''}''))"
| "stringify_elements [] = Some []"
| "stringify_elements (v # vs) =
     (case JSON_stringify v of
        Threw \<Rightarrow> None
      | NoText \<Rightarrow> map_option (\<lambda>parts. ''null'' # parts) (stringify_elements vs)
      | Text t \<Rightarrow> map_option (\<lambda>parts. t # parts) (stringify_elements vs))"
| "stringify_members [] = Some []"
| "stringify_members ((k, v) # kvs) =
     (case JSON_stringify v of
        Threw \<Rightarrow> None
      | NoText \<Rightarrow> stringify_members kvs
      | Text t \<Rightarrow> map_option (\<lambda>parts. (json_string k @ '':'' @ t) # parts) (stringify_members kvs))"

section \<open>React fibers and DOM elements\<close>

text \<open>
  \<open>fiber.type\<close>: \<open>null\<close>, a string (a host element), or an object with optional
  \<open>name\<close> and \<open>displayName\<close>.
\<close>

datatype fiber_type =
    TypeNull
  | TypeString string
  | TypeObject "string option" "string option"

text \<open>\<open>fiber._debugSource\<close>; \<open>fileName\<close> is \<open>None\<close> when it is not a string.\<close>

record debug_source =
  fileName :: "string option"
  lineNumber :: int
  columnNumber :: "int option"

text \<open>
  A value held by a fiber, as a property or in a hook cell: a plain value, or a revoked
  proxy, whose \<open>typeof\<close> is \<open>'object'\<close> and on which every other operation (a property
  read, \<open>in\<close>, \<open>Object.keys\<close>) throws a \<open>TypeError\<close>.
\<close>

datatype fiber_value = Plain jsval | Revoked

text \<open>
  A fiber with the fields the walker reads. \<open>memoizedProps\<close> is \<open>None\<close> when missing;
  each property is paired with the outcome of reading it (\<open>None\<close> when the read throws).
  \<open>memoizedState\<close> is the linked list of hook cells, as the list of their
  \<open>memoizedState\<close> values (empty for \<open>null\<close>). The \<open>return\<close> chain is finite.
\<close>

datatype fiber = Fiber
  (tag: nat)
  (ftype: fiber_type)
  (memoizedProps: "(string \<times> fiber_value option) list option")
  (memoizedState: "fiber_value list")
  (debugSource: "debug_source option")
  (return: "fiber option")

record DOMRect =
  rect_x :: real
  rect_y :: real
  rect_width :: real
  rect_height :: real

text \<open>
  What the code reads from one element. \<open>className\<close> is \<open>None\<close> when it is not a string
  (an SVG element has an \<open>SVGAnimatedString\<close> there). \<open>boundingClientRect\<close> and
  \<open>computedStyle\<close> are the outcomes of \<open>element.getBoundingClientRect()\<close> and
  \<open>window.getComputedStyle(element)\<close>, \<open>Inl\<close> when the call throws (both check that
  their receiver is a genuine element); \<open>computedStyle\<close> lists the declared properties,
  \<open>getPropertyValue\<close> giving the empty string for any other. \<open>ownProperties\<close> are the
  element's own enumerable properties (\<open>Object.keys(element)\<close>) with the fiber stored
  there, if any. \<open>uid\<close> is the identity of the element (\<open>===\<close>), \<open>isDocumentBody\<close>
  whether it is \<open>document.body\<close>, \<open>isHTMLElement\<close> whether \<open>instanceof HTMLElement\<close>.
\<close>

record elem_data =
  uid :: nat
  tagName :: string
  elem_id :: string
  className :: "string option"
  attributes :: "(string \<times> string) list"
  textContent :: "string option"
  innerHTML :: string
  isHTMLElement :: bool
  isDocumentBody :: bool
  boundingClientRect :: "js_error + DOMRect"
  computedStyle :: "js_error + (string \<times> string) list"
  ownProperties :: "(string \<times> fiber option) list"

datatype element = Element
  (data: elem_data)
  (parentElement: "element option")
  (children: "element list")
  (previousElementSibling: "element option")
  (nextElementSibling: "element option")

text \<open>\<open>element.getAttribute(name)\<close> on a genuine element: \<open>null\<close> is \<open>None\<close>.\<close>

definition getAttribute :: "element \<Rightarrow> string \<Rightarrow> string option" where
  "getAttribute e name = map_of (attributes (data e)) name"

section \<open>Ownership-path walker (src/utils/component-path.ts)\<close>

definition FUNCTION_COMPONENT :: nat where "FUNCTION_COMPONENT = 0"
definition CLASS_COMPONENT :: nat where "CLASS_COMPONENT = 1"
definition FORWARD_REF :: nat where "FORWARD_REF = 11"
definition MEMO_COMPONENT :: nat where "MEMO_COMPONENT = 14"
definition SIMPLE_MEMO_COMPONENT :: nat where "SIMPLE_MEMO_COMPONENT = 15"

definition COMPONENT_TAGS :: "nat list" where
  "COMPONENT_TAGS =
     [FUNCTION_COMPONENT, CLASS_COMPONENT, FORWARD_REF, MEMO_COMPONENT, SIMPLE_MEMO_COMPONENT]"

text \<open>
  The regular expressions of \<open>FRAMEWORK_COMPONENT_PATTERNS\<close> come in three shapes:
  \<open>/^(a|b)$/\<close> with its alternatives written out, \<open>/^pre.*suf$/\<close>, and \<open>/suf$/\<close>.
\<close>

datatype name_pattern =
    OneOf "string list"
  | Between string string
  | EndsWith string

definition FRAMEWORK_COMPONENT_PATTERNS :: "name_pattern list" where
  "FRAMEWORK_COMPONENT_PATTERNS =
     [OneOf [''Root'', ''ServerRoot''],
      OneOf [''AppRouter''],
      OneOf [''Router''],
      OneOf [''HotReload''],
      OneOf [''DevRootHTTPAccessFallbackBoundary''],
      Between ''__next_'' ''__'',
      OneOf [''OuterLayoutRouter''],
      OneOf [''InnerLayoutRouter''],
      OneOf [''SegmentStateProvider''],
      OneOf [''SegmentViewNode''],
      OneOf [''RenderFromTemplateContext''],
      OneOf [''ScrollAndFocusHandler''],
      OneOf [''InnerScrollAndFocusHandler''],
      OneOf [''HTTPAccessFallbackBoundary''],
      OneOf [''HTTPAccessFallbackErrorBoundary''],
      OneOf [''RedirectBoundary''],
      OneOf [''RedirectErrorBoundary''],
      OneOf [''LoadingBoundary''],
      OneOf [''ClientPageRoot''],
      OneOf [''AppDevOverlayErrorBoundary''],
      OneOf [''Suspense''],
      OneOf [''Fragment''],
      OneOf [''StrictMode''],
      OneOf [''Profiler''],
      OneOf [''Provider''],
      OneOf [''QueryClientProvider''],
      OneOf [''ThemeProvider''],
      OneOf [''ErrorBoundary''],
      OneOf [''ErrorBoundary'', ''RootErrorBoundary'', ''ErrorBoundaryHandler'',
             ''RootErrorBoundaryHandler''],
      EndsWith ''Context'']"

text \<open>A line terminator, which \<open>.\<close> does not match.\<close>

definition line_terminator :: "char \<Rightarrow> bool" where
  "line_terminator c = (c = CHR 0x0A \<or> c = CHR 0x0D)"

fun pattern_test :: "name_pattern \<Rightarrow> string \<Rightarrow> bool" where
  "pattern_test (OneOf alts) s = (s \<in> set alts)"
| "pattern_test (Between pre suf) s =
     (length pre + length suf \<le> length s \<and> prefix pre s \<and> suffix suf s \<and>
      \<not> list_ex line_terminator (take (length s - length pre - length suf) (drop (length pre) s)))"
| "pattern_test (EndsWith suf) s = suffix suf s"

definition isFrameworkComponent :: "string \<Rightarrow> bool" where
  "isFrameworkComponent s = list_ex (\<lambda>pattern. pattern_test pattern s) FRAMEWORK_COMPONENT_PATTERNS"

definition EXCLUDED_PROPS :: "string list" where
  "EXCLUDED_PROPS =
     [''children'', ''key'', ''ref'', ''__self'', ''__source'', ''password'', ''token'',
      ''apiKey'', ''secret'', ''credentials'', ''params'', ''searchParams'']"

definition fiber_key :: "string \<Rightarrow> bool" where
  "fiber_key k = (prefix ''__reactFiber$'' k \<or> prefix ''__reactInternalInstance$'' k)"

definition getFiberFromElement :: "element \<Rightarrow> fiber option" where
  "getFiberFromElement e =
     (case find (\<lambda>kv. fiber_key (fst kv)) (ownProperties (data e)) of
        Some kv \<Rightarrow> snd kv
      | None \<Rightarrow> None)"

text \<open>A string property that is present and non-empty (truthy).\<close>

fun nonempty :: "string option \<Rightarrow> bool" where
  "nonempty None = False"
| "nonempty (Some s) = (s \<noteq> [])"

fun getComponentName :: "fiber \<Rightarrow> string option" where
  "getComponentName f =
     (case ftype f of
        TypeNull \<Rightarrow> None
      | TypeString _ \<Rightarrow> None
      | TypeObject nm dn \<Rightarrow>
          (if nonempty dn then dn else if nonempty nm then nm else None))"

definition isComponentFiber :: "fiber \<Rightarrow> bool" where
  "isComponentFiber f = (tag f \<in> set COMPONENT_TAGS)"

record SourceLocation =
  loc_fileName :: string
  loc_lineNumber :: int
  loc_columnNumber :: "int option"

text \<open>\<open>.replace(/^webpack:\/\/[^/]*\//, '')\<close> and \<open>.replace(/^p/, '')\<close> for a literal \<open>p\<close>.\<close>

definition strip_webpack :: "string \<Rightarrow> string" where
  "strip_webpack s =
     (if prefix ''webpack://'' s \<and> CHR ''/'' \<in> set (drop 10 s)
      then tl (dropWhile (\<lambda>c. c \<noteq> CHR ''/'') (drop 10 s))
      else s)"

definition strip_prefix :: "string \<Rightarrow> string \<Rightarrow> string" where
  "strip_prefix p s = (if prefix p s then drop (length p) s else s)"

text \<open>
  \<open>extractSourceLocation\<close>: \<open>fileName.replace(...)\<close> is a \<open>TypeError\<close> when \<open>fileName\<close>
  is not a string, and nothing around it catches.
\<close>

definition extractSourceLocation :: "fiber \<Rightarrow> js_error + SourceLocation option" where
  "extractSourceLocation f =
     (case debugSource f of
        None \<Rightarrow> Inr None
      | Some src \<Rightarrow>
          (case fileName src of
             None \<Rightarrow> Inl (JsError ''TypeError: fileName.replace is not a function'')
           | Some file \<Rightarrow>
               Inr (Some \<lparr> loc_fileName =
                              strip_prefix ''./'' (strip_prefix ''/_next/'' (strip_webpack file)),
                            loc_lineNumber = lineNumber src,
                            loc_columnNumber = columnNumber src \<rparr>)))"

fun is_array :: "jsval \<Rightarrow> bool" where
  "is_array (JArr _) = True"
| "is_array _ = False"

text \<open>The values of an object's own properties, or the elements of an array.\<close>

fun own_values :: "jsval \<Rightarrow> jsval list" where
  "own_values (JObj kvs) = map snd kvs"
| "own_values (JArr xs) = xs"
| "own_values _ = []"

text \<open>The exception of an operation on a revoked proxy.\<close>

definition revoked_error :: js_error where
  "revoked_error = JsError ''TypeError: illegal operation attempted on a revoked proxy''"

text \<open>
  \<open>isMeaningfulStateValue\<close> on a plain value. On a revoked proxy its first test,
  \<open>'destroy' in obj\<close>, throws.
\<close>

definition isMeaningfulStateValue :: "jsval \<Rightarrow> bool" where
  "isMeaningfulStateValue v =
     (if v = JNull \<or> v = JUndefined then False
      else if typeof_object v \<and> v \<noteq> JNull then
        (if has_key ''destroy'' v \<or> has_key ''create'' v then False
         else if has_key ''current'' v \<and> keys_length v = 1 then False
         else if has_key ''persist'' v \<and> keys_length v = 1 then False
         else if is_array v \<and> keys_length v = 2 \<and> hd (own_values v) = JNull then False
         else True)
      else True)"

definition isReactQueryInternal :: "jsval \<Rightarrow> bool" where
  "isReactQueryInternal obj =
     (if has_key ''listeners'' obj \<and> has_key ''options'' obj then True
      else if has_key ''_defaulted'' obj \<and> keys_length obj \<le> 2 then True
      else False)"

definition isIdleMutationState :: "jsval \<Rightarrow> bool" where
  "isIdleMutationState obj =
     (has_key ''isIdle'' obj \<and> has_key ''submittedAt'' obj \<and>
      get_prop obj ''isIdle'' = JBool True \<and> get_prop obj ''status'' = JStr ''idle'')"

definition isEmptyObject :: "jsval \<Rightarrow> bool" where
  "isEmptyObject obj =
     (if keys_length obj = 0 then True
      else list_all (\<lambda>v. v = JNull \<or> v = JUndefined \<or> (typeof_object v \<and> keys_length v = 0))
             (own_values obj))"

definition boolFields :: "string list" where
  "boolFields = [''isLoading'', ''isError'', ''isPending'', ''isFetching'']"

text \<open>
  \<open>cleanReactQueryState\<close>: \<open>None\<close> when it throws (\<open>JSON.stringify\<close> of the data throws,
  or gives \<open>undefined\<close>, whose \<open>.length\<close> is a \<open>TypeError\<close>), else \<open>Some\<close> of the result,
  which is \<open>None\<close> for \<open>null\<close>.
\<close>

definition copy_true_flags :: "jsval \<Rightarrow> (string \<times> jsval) list \<Rightarrow> (string \<times> jsval) list" where
  "copy_true_flags st cleaned =
     foldl (\<lambda>acc field. if get_prop st field = JBool True then set_prop field (JBool True) acc else acc)
       cleaned boolFields"

definition finishReactQueryState :: "jsval \<Rightarrow> (string \<times> jsval) list \<Rightarrow> jsval option" where
  "finishReactQueryState st cleaned0 =
     (let cleaned1 = (if has_key ''error'' st \<and> truthy (get_prop st ''error'')
                      then set_prop ''error'' (get_prop st ''error'') cleaned0 else cleaned0);
          cleaned = copy_true_flags st cleaned1;
          hasUsefulData = (has_key ''data'' (JObj cleaned) \<or> has_key ''error'' (JObj cleaned) \<or>
                           list_ex (\<lambda>f. get_prop (JObj cleaned) f = JBool True) boolFields)
      in if hasUsefulData \<or> get_prop (JObj cleaned) ''status'' \<noteq> JStr ''idle''
         then Some (JObj cleaned) else None)"

definition cleanReactQueryState :: "jsval \<Rightarrow> jsval option option" where
  "cleanReactQueryState st =
     (if isReactQueryInternal st then Some None
      else if \<not> has_key ''status'' st \<and> \<not> has_key ''fetchStatus'' st then Some None
      else
        let cleaned0 = [(''_type'', JStr ''ReactQuery'')];
            cleaned1 = (if has_key ''status'' st
                        then set_prop ''status'' (get_prop st ''status'') cleaned0 else cleaned0)
        in if has_key ''data'' st \<and> get_prop st ''data'' \<noteq> JNull \<and> get_prop st ''data'' \<noteq> JUndefined
           then (case JSON_stringify (get_prop st ''data'') of
                   Text dataStr \<Rightarrow>
                     Some (finishReactQueryState st
                       (set_prop ''data''
                          (if length dataStr > 1000 then JStr ''[Large data object - truncated]''
                           else get_prop st ''data'') cleaned1))
                 | _ \<Rightarrow> None)
           else Some (finishReactQueryState st cleaned1))"

text \<open>
  \<open>isPromise\<close> on a plain value. On a revoked proxy, which is not \<open>null\<close> and whose
  \<open>typeof\<close> is \<open>'object'\<close>, the read of \<open>value.then\<close> throws.
\<close>

definition isPromise :: "jsval \<Rightarrow> bool" where
  "isPromise v = (v \<noteq> JNull \<and> typeof_object v \<and> get_prop v ''then'' = JFun)"

fun string_longer :: "jsval \<Rightarrow> nat \<Rightarrow> bool" where
  "string_longer (JStr s) n = (length s > n)"
| "string_longer _ n = False"

fun str_slice :: "jsval \<Rightarrow> nat \<Rightarrow> string" where
  "str_slice (JStr s) n = take n s"
| "str_slice _ n = []"

text \<open>
  The body of the loop of \<open>extractProps\<close> for one key, with the outcome of reading
  \<open>memoizedProps[key]\<close>: the value assigned to \<open>props[key]\<close>, or \<open>None\<close> when the key is
  skipped. The read is inside a \<open>try\<close>; \<open>isPromise(value)\<close>, which follows it, is not.
\<close>

definition sanitize_plain :: "string \<Rightarrow> jsval \<Rightarrow> jsval option" where
  "sanitize_plain key v =
     (if isPromise v then None
      else if v = JFun then (if prefix ''on'' key then None else Some (JStr ''[Function]''))
      else if truthy v \<and> typeof_object v \<and> has_key ''$$typeof'' v then None
      else if string_longer v 100 then Some (JStr (str_slice v 100 @ ''...''))
      else if is_array v \<and> keys_length v > 10
        then Some (JStr (''[Array('' @ string_of_nat (keys_length v) @ '')]''))
      else if typeof_object v \<and> v \<noteq> JNull \<and> keys_length v = 0 then None
      else if JSON_stringify v = Threw then None
      else Some v)"

definition sanitize_prop :: "string \<Rightarrow> fiber_value option \<Rightarrow> js_error + jsval option" where
  "sanitize_prop key rd =
     (if key \<in> set EXCLUDED_PROPS then Inr None
      else case rd of
        None \<Rightarrow> Inr None
      | Some Revoked \<Rightarrow> Inl revoked_error
      | Some (Plain v) \<Rightarrow> Inr (sanitize_plain key v))"

fun extractProps_loop ::
  "(string \<times> fiber_value option) list \<Rightarrow> (string \<times> jsval) list \<times> bool
     \<Rightarrow> js_error + (string \<times> jsval) list \<times> bool" where
  "extractProps_loop [] acc = Inr acc"
| "extractProps_loop ((key, rd) # rest) (props, hasProps) =
     (case sanitize_prop key rd of
        Inl err \<Rightarrow> Inl err
      | Inr None \<Rightarrow> extractProps_loop rest (props, hasProps)
      | Inr (Some v) \<Rightarrow> extractProps_loop rest (set_prop key v props, True))"

definition extractProps :: "fiber \<Rightarrow> js_error + (string \<times> jsval) list option" where
  "extractProps f =
     (case memoizedProps f of
        None \<Rightarrow> Inr None
      | Some mp \<Rightarrow>
          (case extractProps_loop mp ([], False) of
             Inl err \<Rightarrow> Inl err
           | Inr (props, hasProps) \<Rightarrow> Inr (if hasProps then Some props else None)))"

text \<open>
  The body of the loop of \<open>extractLocalState\<close> for one hook cell: the value pushed on
  \<open>states\<close>, or \<open>None\<close> when the cell is skipped (also when the \<open>try\<close> block catches).
  \<open>isMeaningfulStateValue(value)\<close> is called before the \<open>try\<close> block.
\<close>

definition plain_cell :: "jsval \<Rightarrow> jsval option" where
  "plain_cell v =
     (if \<not> isMeaningfulStateValue v then None
      else if v = JFun then None
      else if truthy v \<and> typeof_object v then
        (if isReactQueryInternal v then None
         else if isIdleMutationState v then None
         else if isEmptyObject v then None
         else case cleanReactQueryState v of
           None \<Rightarrow> None
         | Some (Some cleaned) \<Rightarrow> Some cleaned
         | Some None \<Rightarrow>
             if \<not> has_key ''$$typeof'' v
             then (case JSON_stringify v of
                     Text str \<Rightarrow> if length str < 500 then Some v else Some (JStr ''[Large object]'')
                   | _ \<Rightarrow> None)
             else None)
      else Some v)"

fun state_cell :: "fiber_value \<Rightarrow> js_error + jsval option" where
  "state_cell Revoked = Inl revoked_error"
| "state_cell (Plain v) = Inr (plain_cell v)"

fun localState_loop :: "fiber_value list \<Rightarrow> nat \<Rightarrow> jsval list \<Rightarrow> js_error + jsval list" where
  "localState_loop [] count states = Inr states"
| "localState_loop (v # next) count states =
     (if count < 10
      then (case state_cell v of
              Inl err \<Rightarrow> Inl err
            | Inr None \<Rightarrow> localState_loop next (count + 1) states
            | Inr (Some s) \<Rightarrow> localState_loop next (count + 1) (states @ [s]))
      else Inr states)"

fun keep_state :: "jsval \<Rightarrow> bool" where
  "keep_state (JArr _) = True"
| "keep_state (JObj _) = True"
| "keep_state (JStr s) = (length s > 0)"
| "keep_state (JNum _) = True"
| "keep_state _ = False"

definition extractLocalState :: "fiber \<Rightarrow> js_error + jsval list option" where
  "extractLocalState f =
     (if tag f \<noteq> FUNCTION_COMPONENT then Inr None
      else case localState_loop (memoizedState f) 0 [] of
        Inl err \<Rightarrow> Inl err
      | Inr states \<Rightarrow>
          (let meaningfulStates = filter keep_state states
           in Inr (if length meaningfulStates > 0 then Some meaningfulStates else None)))"

datatype item_source = FromFiber | FromDisplayName | FromAttribute

record ComponentPathItem =
  name :: string
  source :: item_source
  sourceLocation :: "SourceLocation option"
  props :: "(string \<times> jsval) list option"
  state :: "jsval list option"

fun has_displayName :: "fiber_type \<Rightarrow> bool" where
  "has_displayName (TypeObject nm dn) = nonempty dn"
| "has_displayName _ = False"

text \<open>
  The item built for a component fiber with the resolved name \<open>nm\<close>: the source location
  first, then, for a name that matches no framework pattern, the properties and the
  local state. None of the three calls is inside a \<open>try\<close>.
\<close>

definition fiber_item :: "fiber \<Rightarrow> string \<Rightarrow> js_error + ComponentPathItem" where
  "fiber_item f nm =
     (case extractSourceLocation f of
        Inl err \<Rightarrow> Inl err
      | Inr loc \<Rightarrow>
          if isFrameworkComponent nm
          then Inr \<lparr> name = nm,
                     source = (if has_displayName (ftype f) then FromDisplayName else FromFiber),
                     sourceLocation = loc, props = None, state = None \<rparr>
          else (case extractProps f of
                  Inl err \<Rightarrow> Inl err
                | Inr ps \<Rightarrow>
                    (case extractLocalState f of
                       Inl err \<Rightarrow> Inl err
                     | Inr localState \<Rightarrow>
                         Inr \<lparr> name = nm,
                               source = (if has_displayName (ftype f) then FromDisplayName
                                         else FromFiber),
                               sourceLocation = loc, props = ps, state = localState \<rparr>)))"

text \<open>One iteration of \<open>while (fiber)\<close>, on \<open>allComponents\<close> and \<open>seen\<close>.\<close>

definition visit_fiber ::
  "fiber \<Rightarrow> ComponentPathItem list \<times> string set
     \<Rightarrow> js_error + ComponentPathItem list \<times> string set" where
  "visit_fiber f acc =
     (case acc of (allComponents, seen) \<Rightarrow>
        if isComponentFiber f then
          (case getComponentName f of
             Some nm \<Rightarrow>
               if nm \<noteq> [] \<and> nm \<notin> seen
               then (case fiber_item f nm of
                       Inl err \<Rightarrow> Inl err
                     | Inr item \<Rightarrow> Inr (item # allComponents, insert nm seen))
               else Inr (allComponents, seen)
           | None \<Rightarrow> Inr (allComponents, seen))
        else Inr (allComponents, seen))"

fun walk_fibers ::
  "fiber \<Rightarrow> ComponentPathItem list \<times> string set
     \<Rightarrow> js_error + ComponentPathItem list \<times> string set" where
  "walk_fibers (Fiber tg ty mp ms ds ret) acc =
     (case visit_fiber (Fiber tg ty mp ms ds ret) acc of
        Inl err \<Rightarrow> Inl err
      | Inr acc' \<Rightarrow>
          (case ret of
             None \<Rightarrow> Inr acc'
           | Some parent \<Rightarrow> walk_fibers parent acc'))"

text \<open>
  \<open>current.getAttribute(name)\<close> as a call: \<open>getAttribute\<close> is a native method that
  checks its receiver as \<open>getBoundingClientRect\<close> does, so it throws on the elements on
  which that one throws (a proxy around an element), and nothing around the call catches.
\<close>

definition getAttribute_call :: "element \<Rightarrow> string \<Rightarrow> js_error + string option" where
  "getAttribute_call e attr =
     (case boundingClientRect (data e) of
        Inl err \<Rightarrow> Inl err
      | Inr rect \<Rightarrow> Inr (getAttribute e attr))"

text \<open>One iteration of \<open>while (current)\<close>, the scan for \<open>data-component\<close> attributes.\<close>

definition visit_attribute ::
  "element \<Rightarrow> ComponentPathItem list \<times> string set
     \<Rightarrow> js_error + ComponentPathItem list \<times> string set" where
  "visit_attribute current acc =
     (case acc of (allComponents, seen) \<Rightarrow>
        (case getAttribute_call current ''data-component'' of
           Inl err \<Rightarrow> Inl err
         | Inr (Some componentAttr) \<Rightarrow>
             if componentAttr \<noteq> [] \<and> componentAttr \<notin> seen
             then Inr (allComponents @
                         [\<lparr> name = componentAttr, source = FromAttribute, sourceLocation = None,
                            props = None, state = None \<rparr>],
                       insert componentAttr seen)
             else Inr (allComponents, seen)
         | Inr None \<Rightarrow> Inr (allComponents, seen)))"

fun walk_attributes ::
  "element \<Rightarrow> ComponentPathItem list \<times> string set
     \<Rightarrow> js_error + ComponentPathItem list \<times> string set" where
  "walk_attributes (Element d parent cs prv nxt) acc =
     (case visit_attribute (Element d parent cs prv nxt) acc of
        Inl err \<Rightarrow> Inl err
      | Inr acc' \<Rightarrow>
          (case parent of
             None \<Rightarrow> Inr acc'
           | Some p \<Rightarrow> walk_attributes p acc'))"

text \<open>\<open>allComponents\<close> as it stands before the final filter.\<close>

definition collectComponents :: "element \<Rightarrow> js_error + ComponentPathItem list" where
  "collectComponents element =
     (case (case getFiberFromElement element of
              None \<Rightarrow> Inr ([], {})
            | Some f \<Rightarrow> walk_fibers f ([], {})) of
        Inl err \<Rightarrow> Inl err
      | Inr acc \<Rightarrow>
          (case walk_attributes element acc of
             Inl err \<Rightarrow> Inl err
           | Inr acc' \<Rightarrow> Inr (fst acc')))"

text \<open>\<open>xs.slice(-n)\<close>.\<close>

definition slice_last :: "nat \<Rightarrow> 'a list \<Rightarrow> 'a list" where
  "slice_last n xs = drop (length xs - n) xs"

text \<open>The last step of \<open>extractComponentPath\<close>, on the collected list.\<close>

definition filter_components :: "ComponentPathItem list \<Rightarrow> ComponentPathItem list" where
  "filter_components allComponents =
     (let appComponents = filter (\<lambda>c. \<not> isFrameworkComponent (name c)) allComponents
      in if length appComponents = 0 \<and> length allComponents > 0
         then slice_last 5 allComponents
         else appComponents)"

definition extractComponentPath :: "element \<Rightarrow> js_error + ComponentPathItem list" where
  "extractComponentPath element =
     (case collectComponents element of
        Inl err \<Rightarrow> Inl err
      | Inr allComponents \<Rightarrow> Inr (filter_components allComponents))"

text \<open>The chain \<open>current, current.parentElement, ...\<close> that the attribute scan visits.\<close>

fun self_and_ancestors :: "element \<Rightarrow> element list" where
  "self_and_ancestors (Element d parent cs prv nxt) =
     Element d parent cs prv nxt #
       (case parent of None \<Rightarrow> [] | Some p \<Rightarrow> self_and_ancestors p)"

text \<open>The fibers \<open>fiber, fiber.return, ...\<close> that the walk visits.\<close>

fun fiber_chain :: "fiber \<Rightarrow> fiber list" where
  "fiber_chain (Fiber tg ty mp ms ds ret) =
     Fiber tg ty mp ms ds ret # (case ret of None \<Rightarrow> [] | Some parent \<Rightarrow> fiber_chain parent)"

text \<open>
  The reads that no \<open>try\<close> block covers return on this fiber: its debug file name, if
  any, is a string, and no revoked proxy is among its property values and hook cells.
\<close>

definition reads_return :: "fiber \<Rightarrow> bool" where
  "reads_return f =
     ((case debugSource f of None \<Rightarrow> True | Some src \<Rightarrow> fileName src \<noteq> None) \<and>
      (case memoizedProps f of None \<Rightarrow> True | Some mp \<Rightarrow> Some Revoked \<notin> set (map snd mp)) \<and>
      Revoked \<notin> set (memoizedState f))"

text \<open>\<open>getAttribute\<close> returns on every element of the chain the scan visits.\<close>

definition genuine_chain :: "element \<Rightarrow> bool" where
  "genuine_chain e =
     list_all (\<lambda>a. getAttribute_call a ''data-component'' = Inr (getAttribute a ''data-component''))
       (self_and_ancestors e)"

text \<open>
  An item that the attribute scan alone can have produced from the elements of \<open>chain\<close>.
\<close>

definition attribute_item :: "element list \<Rightarrow> ComponentPathItem \<Rightarrow> bool" where
  "attribute_item chain c \<longleftrightarrow>
     source c = FromAttribute \<and> sourceLocation c = None \<and> props c = None \<and> state c = None \<and>
     name c \<noteq> [] \<and>
     (\<exists>a\<in>set chain. getAttribute a ''data-component'' = Some (name c))"

section \<open>State adapter registry (state-adapters)\<close>

subsection \<open>Cleaning and redaction\<close>

definition NOISE_KEYS :: "string list" where
  "NOISE_KEYS = [''persist'', ''listeners'', ''_hasHydrated'', ''_persist'', ''rehydrated'']"

fun isMeaningfulValue :: "jsval \<Rightarrow> bool" where
  "isMeaningfulValue JNull = False"
| "isMeaningfulValue JUndefined = False"
| "isMeaningfulValue (JStr s) = (s \<noteq> [])"
| "isMeaningfulValue (JBool b) = b"
| "isMeaningfulValue (JArr xs) = (length xs \<noteq> 0)"
| "isMeaningfulValue (JObj kvs) = (length kvs \<noteq> 0)"
| "isMeaningfulValue _ = True"

text \<open>A key that the object branch of \<open>cleanState\<close> skips.\<close>

definition skipped_key :: "string \<Rightarrow> bool" where
  "skipped_key key = (key \<in> set NOISE_KEYS \<or> prefix ''$$'' key \<or> prefix ''_'' key)"

text \<open>
  \<open>cleanState\<close>, with its loop over \<open>Object.entries(obj)\<close> as \<open>cleanEntries\<close> and
  \<open>state.map(cleanState).filter(isMeaningfulValue)\<close> as \<open>cleanElements\<close>.
\<close>

fun cleanState :: "jsval \<Rightarrow> jsval"
  and cleanElements :: "jsval list \<Rightarrow> jsval list"
  and cleanEntries :: "(string \<times> jsval) list \<Rightarrow> (string \<times> jsval) list"
where
  "cleanState JNull = JUndefined"
| "cleanState JUndefined = JUndefined"
| "cleanState (JArr xs) =
     (let cleaned = cleanElements xs in if length cleaned > 0 then JArr cleaned else JUndefined)"
| "cleanState (JObj kvs) =
     (let cleaned = cleanEntries kvs in if cleaned \<noteq> [] then JObj cleaned else JUndefined)"
| "cleanState (JBool b) = JBool b"
| "cleanState (JNum n) = JNum n"
| "cleanState (JBigInt n) = JBigInt n"
| "cleanState (JStr s) = JStr s"
| "cleanState JFun = JFun"
| "cleanElements [] = []"
| "cleanElements (v # vs) =
     (let cleanedValue = cleanState v
      in if isMeaningfulValue cleanedValue then cleanedValue # cleanElements vs
         else cleanElements vs)"
| "cleanEntries [] = []"
| "cleanEntries ((key, v) # rest) =
     (if skipped_key key then cleanEntries rest
      else let cleanedValue = cleanState v
           in if isMeaningfulValue cleanedValue then (key, cleanedValue) # cleanEntries rest
              else cleanEntries rest)"

text \<open>\<open>filterState\<close>: redaction recurses into plain objects only.\<close>

fun filterState :: "(string \<times> jsval) list \<Rightarrow> string list \<Rightarrow> (string \<times> jsval) list"
  and filterValue :: "jsval \<Rightarrow> string list \<Rightarrow> jsval"
where
  "filterState [] excludeKeys = []"
| "filterState ((key, v) # rest) excludeKeys =
     (if key \<in> set excludeKeys then (key, JStr ''[REDACTED]'')
      else (key, filterValue v excludeKeys)) # filterState rest excludeKeys"
| "filterValue (JObj kvs) excludeKeys = JObj (filterState kvs excludeKeys)"
| "filterValue JUndefined excludeKeys = JUndefined"
| "filterValue JNull excludeKeys = JNull"
| "filterValue (JBool b) excludeKeys = JBool b"
| "filterValue (JNum n) excludeKeys = JNum n"
| "filterValue (JBigInt n) excludeKeys = JBigInt n"
| "filterValue (JStr s) excludeKeys = JStr s"
| "filterValue JFun excludeKeys = JFun"
| "filterValue (JArr xs) excludeKeys = JArr xs"

text \<open>
  What the claim about \<open>cleanState\<close> forbids inside a value, at every depth: a property
  whose key is a noise key or has an internal prefix, and a property value or array
  element that is \<open>null\<close>, \<open>undefined\<close>, the empty string, \<open>false\<close>, an empty array or an
  empty object.
\<close>

fun deep_clean :: "jsval \<Rightarrow> bool"
  and deep_clean_elements :: "jsval list \<Rightarrow> bool"
  and deep_clean_entries :: "(string \<times> jsval) list \<Rightarrow> bool"
where
  "deep_clean (JArr xs) = deep_clean_elements xs"
| "deep_clean (JObj kvs) = deep_clean_entries kvs"
| "deep_clean JUndefined = True"
| "deep_clean JNull = True"
| "deep_clean (JBool b) = True"
| "deep_clean (JNum n) = True"
| "deep_clean (JBigInt n) = True"
| "deep_clean (JStr s) = True"
| "deep_clean JFun = True"
| "deep_clean_elements [] = True"
| "deep_clean_elements (v # vs) = (isMeaningfulValue v \<and> deep_clean v \<and> deep_clean_elements vs)"
| "deep_clean_entries [] = True"
| "deep_clean_entries ((key, v) # rest) =
     (key \<notin> set NOISE_KEYS \<and> \<not> prefix ''$$'' key \<and> \<not> prefix ''_'' key \<and>
      isMeaningfulValue v \<and> deep_clean v \<and> deep_clean_entries rest)"

subsection \<open>The window and the stores on it\<close>

text \<open>
  A Jotai atom: its optional \<open>debugLabel\<close> and the outcome of calling \<open>toString()\<close>.
\<close>

record atom =
  debugLabel :: "string option"
  atom_toString :: "js_error + string"

text \<open>The outcome of calling a store's \<open>getState()\<close>: it throws, or returns a state object.\<close>

datatype store_call = Throws | Returns "(string \<times> jsval) list"

text \<open>
  An object found on the window, by what the adapters test and call:
  \<open>getState_fn\<close> is \<open>None\<close> unless \<open>typeof obj.getState === 'function'\<close>, and then holds
  the outcome of the call; \<open>has_subscribe\<close> and \<open>has_dispatch\<close> say whether those are
  functions; \<open>get_fn\<close> is \<open>None\<close> unless \<open>typeof obj.get === 'function'\<close>, and then maps
  an atom to the value read, \<open>None\<close> when the read throws.
\<close>

record store_obj =
  getState_fn :: "store_call option"
  has_subscribe :: bool
  has_dispatch :: bool
  get_fn :: "(atom \<Rightarrow> jsval option) option"

text \<open>
  A property of the window: such an object; a \<open>Map\<close> from names to values; an object
  whose \<open>values\<close> is a \<open>Map\<close> from atoms to values (the Jotai devtools state); an array of
  atoms; a falsy value; any other truthy value; or an accessor whose getter throws.
\<close>

datatype winval =
    WObject store_obj
  | WMap "(string \<times> winval) list"
  | WJotaiDevtools "(atom \<times> jsval) list"
  | WAtoms "atom list"
  | WFalsy
  | WTruthy
  | WThrowing js_error







subsection \<open>Zustand adapter (src/state-adapters/zustand.ts)\<close>






subsection \<open>Redux adapter (src/unnamed/part_003)\<close>




subsection \<open>Jotai adapter (src/state-adapters/jotai.ts)\<close>








subsection \<open>captureAppState (src/unnamed/part_004)\<close>







type_synonym CapturedAppState = "(string \<times> jsval) list"









section \<open>Identity extractor (src/unnamed/part_001)\<close>

subsection \<open>String helpers\<close>

text \<open>White space that \<open>trim()\<close> removes, among the code units below 256.\<close>

definition is_space :: "char \<Rightarrow> bool" where
  "is_space c = ((of_char c :: nat) \<in> {9, 10, 11, 12, 13, 32, 160})"

definition trim :: "string \<Rightarrow> string" where
  "trim s = rev (dropWhile is_space (rev (dropWhile is_space s)))"

text \<open>\<open>s.split(' ')\<close>: the empty string gives one empty part.\<close>

fun split_spaces :: "string \<Rightarrow> string list" where
  "split_spaces [] = [[]]"
| "split_spaces (c # cs) =
     (if c = CHR '' '' then [] # split_spaces cs
      else (case split_spaces cs of
              [] \<Rightarrow> [[c]]
            | part # parts \<Rightarrow> (c # part) # parts))"

text \<open>\<open>prop.replace(/([A-Z])/g, '-$1').toLowerCase()\<close>.\<close>

definition is_upper :: "char \<Rightarrow> bool" where
  "is_upper c = (65 \<le> (of_char c :: nat) \<and> (of_char c :: nat) \<le> 90)"

definition kebab :: "string \<Rightarrow> string" where
  "kebab prop = toLowerCase (concat (map (\<lambda>c. if is_upper c then [CHR ''-'', c] else [c]) prop))"

text \<open>\<open>Math.round\<close>: the nearest integer, halves upwards.\<close>

definition Math_round :: "real \<Rightarrow> int" where
  "Math_round r = \<lfloor>r + 1 / 2\<rfloor>"

subsection \<open>The snapshot\<close>

record ParentInfo =
  parent_tagName :: string
  parent_id :: string
  parent_className :: string
  htmlPreview :: string

record DOMContext =
  parents :: "ParentInfo list"
  previousSibling :: "string option"
  nextSibling :: "string option"
  childCount :: nat
  context_innerHTML :: string

record BoundingRect =
  x_px :: int
  y_px :: int
  width_px :: int
  height_px :: int

record Accessibility =
  role :: "string option"
  ariaLabel :: "string option"
  ariaDescribedBy :: "string option"
  ariaDisabled :: "string option"
  tabIndex :: "string option"

record ElementInfo =
  info_tagName :: string
  info_id :: string
  info_className :: string
  info_textContent :: string
  info_attributes :: "(string \<times> string) list"
  boundingRect :: BoundingRect
  selector :: string
  computedStyles :: "(string \<times> string) list"
  domContext :: DOMContext
  accessibility :: Accessibility

subsection \<open>Computed styles\<close>

definition DEFAULT_STYLES :: "(string \<times> string) list" where
  "DEFAULT_STYLES =
     [(''display'', ''block''), (''position'', ''static''), (''visibility'', ''visible''),
      (''opacity'', ''1''), (''cursor'', ''auto''), (''pointerEvents'', ''auto''),
      (''overflow'', ''visible''), (''zIndex'', ''auto'')]"

definition STYLE_PROPERTIES :: "string list" where
  "STYLE_PROPERTIES =
     [''display'', ''position'', ''visibility'', ''opacity'', ''width'', ''height'', ''padding'',
      ''margin'', ''border'', ''backgroundColor'', ''color'', ''fontSize'', ''fontWeight'',
      ''cursor'', ''pointerEvents'', ''overflow'', ''zIndex'']"

text \<open>\<open>computed.getPropertyValue(p)\<close>: the empty string when the property is not set.\<close>

definition getPropertyValue :: "(string \<times> string) list \<Rightarrow> string \<Rightarrow> string" where
  "getPropertyValue computed p = (case map_of computed p of Some v \<Rightarrow> v | None \<Rightarrow> [])"

text \<open>Whether the loop of \<open>extractComputedStyles\<close> skips the property with this value.\<close>

definition skip_style :: "string \<Rightarrow> string \<Rightarrow> bool" where
  "skip_style prop v =
     ((case map_of DEFAULT_STYLES prop of
         Some defaultValue \<Rightarrow> defaultValue \<noteq> [] \<and> v = defaultValue
       | None \<Rightarrow> False) \<or>
      (prop = ''border'' \<and> str_includes v ''none'') \<or>
      (prop = ''backgroundColor'' \<and> (v = ''transparent'' \<or> v = ''rgba(0, 0, 0, 0)'')) \<or>
      ((prop = ''padding'' \<or> prop = ''margin'') \<and> v = ''0px''))"

fun styles_loop ::
  "(string \<times> string) list \<Rightarrow> string list \<Rightarrow> (string \<times> string) list \<Rightarrow> (string \<times> string) list" where
  "styles_loop computed [] styles = styles"
| "styles_loop computed (prop # rest) styles =
     (let v = getPropertyValue computed (kebab prop)
      in if skip_style prop v then styles_loop computed rest styles
         else styles_loop computed rest (set_prop prop v styles))"

definition extractComputedStyles :: "element \<Rightarrow> js_error + (string \<times> string) list" where
  "extractComputedStyles e =
     (case computedStyle (data e) of
        Inl err \<Rightarrow> Inl err
      | Inr computed \<Rightarrow> Inr (styles_loop computed STYLE_PROPERTIES []))"

subsection \<open>Selector\<close>

definition UTILITY_PREFIXES :: "string list" where
  "UTILITY_PREFIXES =
     [''flex'', ''grid'', ''block'', ''inline'', ''hidden'', ''p-'', ''m-'', ''w-'', ''h-'', ''text-'',
      ''bg-'', ''border-'', ''rounded'', ''items-'', ''justify-'', ''gap-'', ''space-'']"

definition meaningful_class :: "string \<Rightarrow> bool" where
  "meaningful_class c =
     (if c = [] then False
      else if list_ex (\<lambda>p. prefix p c) UTILITY_PREFIXES then False
      else if length c < 3 then False
      else if prefix ''_'' c then False
      else True)"

text \<open>\<open>siblings.indexOf(element) + 1\<close>, by identity; 0 when the element is not found.\<close>

fun index_plus_one :: "nat \<Rightarrow> element list \<Rightarrow> nat" where
  "index_plus_one u [] = 0"
| "index_plus_one u (s # ss) =
     (if uid (data s) = u then 1
      else (case index_plus_one u ss of 0 \<Rightarrow> 0 | Suc i \<Rightarrow> Suc (Suc i)))"

definition class_part :: "element \<Rightarrow> string" where
  "class_part e =
     (case className (data e) of
        None \<Rightarrow> []
      | Some cls \<Rightarrow>
          if cls = [] then []
          else let meaningfulClasses = take 2 (filter meaningful_class (split_spaces cls))
               in if length meaningfulClasses > 0 then ''.'' @ join ''.'' meaningfulClasses else [])"

definition nth_part :: "element \<Rightarrow> element \<Rightarrow> string" where
  "nth_part e parent =
     (let siblings = filter (\<lambda>child. tagName (data child) = tagName (data e)) (children parent)
      in if length siblings > 1
         then '':nth-of-type('' @ string_of_nat (index_plus_one (uid (data e)) siblings) @ '')''
         else [])"

definition parentHint :: "element \<Rightarrow> string" where
  "parentHint parent =
     (if elem_id (data parent) \<noteq> [] then ''#'' @ elem_id (data parent) @ '' > ''
      else if nonempty (getAttribute parent ''data-testid'')
        then ''[data-testid='' @ [CHR 0x22] @ the (getAttribute parent ''data-testid'') @ [CHR 0x22]
               @ ''] > ''
      else [])"

definition generateUniqueSelector :: "element \<Rightarrow> string" where
  "generateUniqueSelector e =
     (if nonempty (getAttribute e ''data-testid'')
        then ''[data-testid='' @ [CHR 0x22] @ the (getAttribute e ''data-testid'') @ [CHR 0x22] @ '']''
      else if elem_id (data e) \<noteq> [] then ''#'' @ elem_id (data e)
      else if nonempty (getAttribute e ''data-component'')
        then ''[data-component='' @ [CHR 0x22] @ the (getAttribute e ''data-component'') @ [CHR 0x22]
               @ '']''
      else
        let selector0 = toLowerCase (tagName (data e)) @ class_part e
        in (case parentElement e of
              None \<Rightarrow> selector0
            | Some parent \<Rightarrow> parentHint parent @ selector0 @ nth_part e parent))"

subsection \<open>DOM context\<close>

definition firstClass :: "string \<Rightarrow> string option" where
  "firstClass cls = find (\<lambda>c. c \<noteq> [] \<and> length c > 2 \<and> \<not> prefix ''_'' c) (split_spaces cls)"

definition getElementSummary :: "element option \<Rightarrow> string option" where
  "getElementSummary el =
     (case el of
        None \<Rightarrow> None
      | Some e \<Rightarrow>
          if \<not> isHTMLElement (data e) then None
          else
            let tg = toLowerCase (tagName (data e));
                idStr = (if elem_id (data e) \<noteq> [] then ''#'' @ elem_id (data e) else []);
                testIdStr = (if nonempty (getAttribute e ''data-testid'')
                             then ''[data-testid='' @ [CHR 0x22] @ the (getAttribute e ''data-testid'')
                                    @ [CHR 0x22] @ '']''
                             else []);
                classStr = (if idStr = [] \<and> testIdStr = [] \<and> nonempty (className (data e))
                            then (case firstClass (the (className (data e))) of
                                    Some c \<Rightarrow> ''.'' @ c
                                  | None \<Rightarrow> [])
                            else []);
                text = (case textContent (data e) of
                          None \<Rightarrow> []
                        | Some t \<Rightarrow> take 20 (trim t))
            in Some (''<'' @ tg @ idStr @ testIdStr @ classStr @ ''>'' @
                     (if text \<noteq> []
                      then '' '' @ [CHR 0x22] @ text @ (if length text \<ge> 20 then ''...'' else [])
                           @ [CHR 0x22]
                      else [])))"

definition getHtmlPreview :: "element \<Rightarrow> string" where
  "getHtmlPreview e =
     (let tg = toLowerCase (tagName (data e));
          idAttr = (if elem_id (data e) \<noteq> []
                    then '' id='' @ [CHR 0x22] @ elem_id (data e) @ [CHR 0x22] else []);
          testIdAttr = (if nonempty (getAttribute e ''data-testid'')
                        then '' data-testid='' @ [CHR 0x22] @ the (getAttribute e ''data-testid'')
                               @ [CHR 0x22]
                        else []);
          classAttr = (if nonempty (className (data e))
                       then let cls = the (className (data e));
                                classes = join '' '' (take 3 (filter (\<lambda>c. c \<noteq> []) (split_spaces cls)))
                            in if classes \<noteq> []
                               then '' class='' @ [CHR 0x22] @ classes
                                    @ (if length (split_spaces cls) > 3 then '' ...'' else [])
                                    @ [CHR 0x22]
                               else []
                       else [])
      in ''<'' @ tg @ idAttr @ testIdAttr @ classAttr @ ''>'')"

text \<open>The entry pushed on \<open>parents\<close> for one ancestor.\<close>

definition parent_info :: "element \<Rightarrow> ParentInfo" where
  "parent_info parent =
     \<lparr> parent_tagName = tagName (data parent),
       parent_id = elem_id (data parent),
       parent_className = (case className (data parent) of
                             Some cls \<Rightarrow> join '' '' (take 3 (split_spaces cls))
                           | None \<Rightarrow> []),
       htmlPreview = getHtmlPreview parent \<rparr>"

text \<open>\<open>while (parent && parent !== document.body && depth < 3)\<close>.\<close>

fun parent_chain :: "element option \<Rightarrow> nat \<Rightarrow> ParentInfo list \<Rightarrow> ParentInfo list" where
  "parent_chain None depth acc = acc"
| "parent_chain (Some (Element d grandparent cs prv nxt)) depth acc =
     (if \<not> isDocumentBody d \<and> depth < 3
      then parent_chain grandparent (depth + 1) (acc @ [parent_info (Element d grandparent cs prv nxt)])
      else acc)"

definition extractDOMContext :: "element \<Rightarrow> DOMContext" where
  "extractDOMContext e =
     \<lparr> parents = parent_chain (parentElement e) 0 [],
       previousSibling = getElementSummary (previousElementSibling e),
       nextSibling = getElementSummary (nextElementSibling e),
       childCount = length (children e),
       context_innerHTML =
         (let html = trim (innerHTML (data e))
          in if length html > 300 then take 300 html @ ''...'' else html) \<rparr>"

definition extractAccessibility :: "element \<Rightarrow> Accessibility" where
  "extractAccessibility e =
     \<lparr> role = getAttribute e ''role'',
       ariaLabel = getAttribute e ''aria-label'',
       ariaDescribedBy = getAttribute e ''aria-describedby'',
       ariaDisabled = getAttribute e ''aria-disabled'',
       tabIndex = getAttribute e ''tabindex'' \<rparr>"

subsection \<open>extractElementInfo\<close>

text \<open>The loop over \<open>element.attributes\<close>.\<close>

fun attributes_loop :: "(string \<times> string) list \<Rightarrow> (string \<times> string) list \<Rightarrow> (string \<times> string) list" where
  "attributes_loop [] acc = acc"
| "attributes_loop ((nm, v) # rest) acc =
     (if nm \<notin> set [''id'', ''class'', ''style'']
      then attributes_loop rest
             (set_prop nm (if length v > 200 then take 200 v @ ''...'' else v) acc)
      else attributes_loop rest acc)"

definition extract_textContent :: "element \<Rightarrow> string" where
  "extract_textContent e =
     (let text = (case textContent (data e) of None \<Rightarrow> [] | Some t \<Rightarrow> trim t)
      in if length text > 150 then take 150 text @ ''...'' else text)"

text \<open>
  \<open>extractElementInfo\<close>. Nothing in it catches: \<open>getBoundingClientRect()\<close> is its first
  statement and \<open>extractComputedStyles\<close> is called while the result is built, so an
  exception of either leaves the function.
\<close>

definition extractElementInfo :: "element \<Rightarrow> js_error + ElementInfo" where
  "extractElementInfo e =
     (case boundingClientRect (data e) of
        Inl err \<Rightarrow> Inl err
      | Inr rect \<Rightarrow>
          (case extractComputedStyles e of
             Inl err \<Rightarrow> Inl err
           | Inr styles \<Rightarrow>
               Inr \<lparr> info_tagName = tagName (data e),
                     info_id = elem_id (data e),
                     info_className = (case className (data e) of Some cls \<Rightarrow> cls | None \<Rightarrow> []),
                     info_textContent = extract_textContent e,
                     info_attributes = attributes_loop (attributes (data e)) [],
                     boundingRect = \<lparr> x_px = Math_round (rect_x rect),
                                      y_px = Math_round (rect_y rect),
                                      width_px = Math_round (rect_width rect),
                                      height_px = Math_round (rect_height rect) \<rparr>,
                     selector = generateUniqueSelector e,
                     computedStyles = styles,
                     domContext = extractDOMContext e,
                     accessibility = extractAccessibility e \<rparr>))"

subsection \<open>The documented limits\<close>




section \<open>Delivery transport (src/unnamed/part_002)\<close>

record ViewportInfo =
  viewport_width :: int
  viewport_height :: int

record EnvironmentInfo =
  react :: "string option"
  userAgent :: string
  env_timestamp :: string
  env_url :: string

record ContextReport =
  report_id :: string
  report_timestamp :: string
  url :: string
  viewport :: ViewportInfo
  description :: "string option"
  selectedElement :: ElementInfo
  componentPath :: "ComponentPathItem list"
  appState :: CapturedAppState
  environment :: EnvironmentInfo
  consoleErrors :: "ConsoleEntry list option"

text \<open>
  Whether \<open>JSON.stringify(report)\<close> returns: the values of unknown type in a report are
  the captured state and the properties and hook values of the components, and
  \<open>JSON.stringify\<close> throws on a \<open>BigInt\<close> among them.
\<close>

definition item_serializable :: "ComponentPathItem \<Rightarrow> bool" where
  "item_serializable c =
     ((case props c of None \<Rightarrow> True | Some ps \<Rightarrow> JSON_stringify (JObj ps) \<noteq> Threw) \<and>
      (case state c of None \<Rightarrow> True | Some ss \<Rightarrow> JSON_stringify (JArr ss) \<noteq> Threw))"

definition report_serializable :: "ContextReport \<Rightarrow> bool" where
  "report_serializable r =
     (JSON_stringify (JObj (appState r)) \<noteq> Threw \<and> list_all item_serializable (componentPath r))"




text \<open>
  The outcome of a \<open>fetch\<close>: a response with its \<open>ok\<close> flag, or a rejection (a network
  error, or the abort that the timeout triggers).
\<close>

datatype fetch_result = Response bool | Rejected

text \<open>
  The network at the time of a call: what \<open>GET serverUrl/health\<close> and
  \<open>POST serverUrl + endpoint\<close> give under a timeout.
\<close>

record network =
  health :: "string \<Rightarrow> int \<Rightarrow> fetch_result"
  post :: "string \<Rightarrow> string \<Rightarrow> int \<Rightarrow> fetch_result"

text \<open>
  What \<open>JSON.parse(JSON.stringify(v))\<close> gives for a value that \<open>JSON.stringify\<close> accepts:
  a member of an object that is \<open>undefined\<close> or a function is left out, such an element
  of an array becomes \<open>null\<close>, and so does a number that is not finite.
\<close>

fun json_value :: "jsval \<Rightarrow> jsval"
  and json_elements :: "jsval list \<Rightarrow> jsval list"
  and json_members :: "(string \<times> jsval) list \<Rightarrow> (string \<times> jsval) list"
where
  "json_value (JNum n) =
     (if n = ''NaN'' \<or> n = ''Infinity'' \<or> n = ''-Infinity'' then JNull else JNum n)"
| "json_value (JArr xs) = JArr (json_elements xs)"
| "json_value (JObj kvs) = JObj (json_members kvs)"
| "json_value JUndefined = JUndefined"
| "json_value JNull = JNull"
| "json_value (JBool b) = JBool b"
| "json_value (JBigInt n) = JBigInt n"
| "json_value (JStr s) = JStr s"
| "json_value JFun = JFun"
| "json_elements [] = []"
| "json_elements (v # vs) =
     (if v = JUndefined \<or> v = JFun then JNull else json_value v) # json_elements vs"
| "json_members [] = []"
| "json_members ((k, v) # kvs) =
     (if v = JUndefined \<or> v = JFun then json_members kvs
      else (k, json_value v) # json_members kvs)"

text \<open>A report as it is read back from its JSON text.\<close>

definition stored_item :: "ComponentPathItem \<Rightarrow> ComponentPathItem" where
  "stored_item c =
     c\<lparr>props := map_option json_members (props c), state := map_option json_elements (state c)\<rparr>"

definition stored_form :: "ContextReport \<Rightarrow> ContextReport" where
  "stored_form r =
     r\<lparr>componentPath := map stored_item (componentPath r), appState := json_members (appState r)\<rparr>"

text \<open>
  The item of \<open>localStorage\<close> under \<open>contextReports\<close>: missing (or empty); the JSON text
  of an array of reports, held as the reports read back from it; the JSON text of a
  value that is not an array; or a text that \<open>JSON.parse\<close> rejects. \<open>readable\<close> is false
  when reading \<open>localStorage\<close> throws, \<open>writable\<close> when \<open>setItem\<close> throws (the quota is
  exceeded).
\<close>

datatype stored = NoItem | Reports "ContextReport list" | NonArray | Unparsable

record local_storage =
  item :: stored
  readable :: bool
  writable :: bool

datatype console_output =
    ConsoleWarn string
  | ConsoleLog string
  | ConsoleReport ContextReport
  | ConsoleGroup string
  | ConsoleGroupEnd

text \<open>
  The state of the module and of what it writes to: the availability cache, the local
  storage, the console, and the number of requests issued so far.
\<close>

record reporter_state =
  cachedServerAvailable :: "bool option"
  lastServerCheck :: int
  storage :: local_storage
  console :: "console_output list"
  probes :: nat
  posts :: nat



definition clearServerCache :: "reporter_state \<Rightarrow> reporter_state" where
  "clearServerCache st = st\<lparr>cachedServerAvailable := None, lastServerCheck := 0\<rparr>"


definition save_failed :: "reporter_state \<Rightarrow> reporter_state" where
  "save_failed st =
     st\<lparr>console := console st @ [ConsoleWarn ''[ContextReporter] Failed to save to localStorage:'']\<rparr>"

text \<open>
  \<open>saveToLocalStorage\<close>: everything is inside one \<open>try\<close>; a failure is logged and dropped.
  \<open>reports.unshift\<close> is a \<open>TypeError\<close> on a parsed value that is not an array.
\<close>

definition write_reports :: "ContextReport list \<Rightarrow> reporter_state \<Rightarrow> reporter_state" where
  "write_reports reports st =
     (let trimmed = take 20 reports
      in if \<not> list_all report_serializable trimmed \<or> \<not> writable (storage st)
         then save_failed st
         else st\<lparr>storage := (storage st)\<lparr>item := Reports (map stored_form trimmed)\<rparr>\<rparr>)"

definition saveToLocalStorage :: "ContextReport \<Rightarrow> reporter_state \<Rightarrow> reporter_state" where
  "saveToLocalStorage report st =
     (if \<not> readable (storage st) then save_failed st
      else case item (storage st) of
        Unparsable \<Rightarrow> save_failed st
      | NonArray \<Rightarrow> save_failed st
      | NoItem \<Rightarrow> write_reports [report] st
      | Reports existing \<Rightarrow> write_reports (report # existing) st)"



datatype transport = Server | Console

record delivery =
  delivery_method :: transport
  success :: bool

text \<open>The human-readable summary that follows the tagged line.\<close>

definition summary_lines :: "ContextReport \<Rightarrow> console_output list" where
  "summary_lines report =
     [ConsoleGroup (''Context Report: '' @ report_id report),
      ConsoleLog (''URL: '' @ url report),
      ConsoleLog (''Element: '' @ info_tagName (selectedElement report) @ ''#'' @
                  (if info_id (selectedElement report) \<noteq> [] then info_id (selectedElement report)
                   else ''(no id)'')),
      ConsoleLog (''Component Path: '' @ join '' > '' (map name (componentPath report)))] @
     (if nonempty (description report)
      then [ConsoleLog (''Description: '' @ the (description report))] else []) @
     [ConsoleLog ''Note: Run /process-reports in Claude Code to retrieve this report'',
      ConsoleGroupEnd]"

text \<open>
  The console fallback. \<open>JSON.stringify(report)\<close> is evaluated first and is not inside a
  \<open>try\<close>: when it throws, nothing is logged and the exception leaves \<open>logContextReport\<close>.
\<close>

definition log_to_console :: "ContextReport \<Rightarrow> reporter_state \<Rightarrow> (js_error + delivery) \<times> reporter_state" where
  "log_to_console report st =
     (if \<not> report_serializable report
      then (Inl (JsError ''TypeError: Do not know how to serialize a BigInt''), st)
      else (Inr \<lparr> delivery_method = Console, success = True \<rparr>,
            st\<lparr>console := console st @ [ConsoleReport report] @ summary_lines report\<rparr>))"















section \<open>Concrete inputs\<close>

text \<open>A detached, empty \<open>div\<close>, the base of the concrete elements below.\<close>

definition plain_data :: elem_data where
  "plain_data = \<lparr> uid = 0, tagName = ''DIV'', elem_id = [], className = Some [],
     attributes = [], textContent = Some [], innerHTML = [], isHTMLElement = True,
     isDocumentBody = False, boundingClientRect = Inr \<lparr>rect_x = 0, rect_y = 0, rect_width = 0, rect_height = 0\<rparr>,
     computedStyle = Inr [], ownProperties = [] \<rparr>"

text \<open>
  A function-component fiber with one property and one hook cell; a chain whose names
  all match a framework pattern, and one with two application components.
\<close>

definition noise_fiber :: "string \<Rightarrow> fiber option \<Rightarrow> fiber" where
  "noise_fiber nm parent = Fiber 0 (TypeObject (Some nm) None) (Some [(''value'', Some (Plain (JNum ''1'')))])
       [Plain (JNum ''3'')] None parent"

definition noisy_chain :: fiber where
  "noisy_chain =
     noise_fiber ''ThemeContext'' (Some (noise_fiber ''Suspense'' (Some (noise_fiber ''ErrorBoundary''
       (Some (noise_fiber ''__next_layout__'' (Some (noise_fiber ''Router''
         (Some (noise_fiber ''ServerRoot'' None))))))))))"

definition mixed_chain :: fiber where
  "mixed_chain =
     noise_fiber ''SaveButton'' (Some (noise_fiber ''Suspense'' (Some (noise_fiber ''Toolbar''
       (Some (noise_fiber ''Provider'' None))))))"

definition with_fiber :: "fiber \<Rightarrow> element" where
  "with_fiber f = Element (plain_data\<lparr>ownProperties := [(''__reactProps$abc'', None), (''__reactFiber$abc'', Some f)]\<rparr>) None [] None None"

definition card_in_page :: element where
  "card_in_page =
     Element (plain_data\<lparr>attributes := [(''data-component'', ''Card'')]\<rparr>)
       (Some (Element (plain_data\<lparr>uid := 1, attributes := [(''data-component'', ''Page'')]\<rparr>)
          None [] None None)) [] None None"

definition bare_element :: element where
  "bare_element = Element plain_data None [] None None"



definition nested_state :: jsval where
  "nested_state =
     JObj [(''user'', JObj [(''name'', JStr ''ann''), (''_persist'', JNum ''1''), (''tags'', JArr []),
                            (''admin'', JBool False)]),
           (''listeners'', JArr [JFun]),
           (''cart'', JArr [JNull, JObj [(''note'', JStr [])], JNum ''0'']),
           (''draft'', JObj [(''$$typeof'', JNum ''1'')])]"

text \<open>
  A report, and one whose captured state holds a \<open>BigInt\<close>; the default configuration; a
  network on which every request is rejected and one on which every request succeeds; a
  state whose stored item is no JSON.
\<close>

definition empty_info :: ElementInfo where
  "empty_info =
     \<lparr> info_tagName = ''BUTTON'', info_id = ''save-btn'', info_className = [],
       info_textContent = ''Save'', info_attributes = [],
       boundingRect = \<lparr> x_px = 0, y_px = 0, width_px = 80, height_px = 24 \<rparr>,
       selector = ''#save-btn'', computedStyles = [],
       domContext = \<lparr> parents = [], previousSibling = None, nextSibling = None, childCount = 0,
                      context_innerHTML = ''Save'' \<rparr>,
       accessibility = \<lparr> role = None, ariaLabel = None, ariaDescribedBy = None,
                          ariaDisabled = None, tabIndex = None \<rparr> \<rparr>"

definition sample_report :: ContextReport where
  "sample_report =
     \<lparr> report_id = ''report-1-abc'', report_timestamp = ''2024-01-01T00:00:00.000Z'',
       url = ''http://localhost:3000/'', viewport = \<lparr> viewport_width = 1280, viewport_height = 720 \<rparr>,
       description = None, selectedElement = empty_info, componentPath = [],
       appState = [(''redux'', JObj [(''count'', JNum ''1'')])],
       environment = \<lparr> react = None, userAgent = ''test'', env_timestamp = ''2024-01-01T00:00:00.000Z'',
                        env_url = ''http://localhost:3000/'' \<rparr>,
       consoleErrors = None \<rparr>"






text \<open>
  An element on which the native calls throw; a detached element with long text, markup
  and attribute value; a detached element of a foreign namespace.
\<close>

definition proxy_backed :: element where
  "proxy_backed =
     Element (plain_data\<lparr>boundingClientRect := Inl (JsError ''TypeError: Illegal invocation''),
                          computedStyle := Inl (JsError ''TypeError: Illegal invocation'')\<rparr>)
       None [] None None"

text \<open>
  A function component one of whose hook cells holds a revoked proxy (a draft kept after
  its producer has finished).
\<close>

definition draft_fiber :: fiber where
  "draft_fiber = Fiber 0 (TypeObject (Some ''Editor'') None) None [Plain (JNum ''3''), Revoked] None None"



text \<open>A proxy around an element that carries a \<open>data-component\<close> attribute.\<close>

definition proxy_card :: element where
  "proxy_card =
     Element (plain_data\<lparr>attributes := [(''data-component'', ''Card'')],
                          boundingClientRect := Inl (JsError ''TypeError: Illegal invocation''),
                          computedStyle := Inl (JsError ''TypeError: Illegal invocation'')\<rparr>)
       None [] None None"



definition svg_detached :: element where
  "svg_detached =
     Element (plain_data\<lparr>tagName := ''circle'', className := None, textContent := None,
                          isHTMLElement := False\<rparr>)
       None [] None None"








text \<open>A report whose custom state is a function.\<close>

definition function_report :: ContextReport where
  "function_report = sample_report\<lparr>appState := [(''custom'', JFun)]\<rparr>"

section \<open>Facts about strings\<close>

lemma includes_iff: "str_includes s t \<longleftrightarrow> (\<exists>pre post. s = pre @ t @ post)"
proof (induction s)
  case Nil
  then show ?case by auto
next
  case (Cons c cs)
  show ?case
  proof
    assume "str_includes (c # cs) t"
    then consider "prefix t (c # cs)" | "str_includes cs t" by auto
    then show "\<exists>pre post. c # cs = pre @ t @ post"
    proof cases
      case 1
      then obtain post where "c # cs = t @ post" by (auto simp: prefix_def)
      then have "c # cs = [] @ t @ post" by simp
      then show ?thesis by blast
    next
      case 2
      with Cons.IH obtain pre post where "cs = pre @ t @ post" by blast
      then have "c # cs = (c # pre) @ t @ post" by simp
      then show ?thesis by blast
    qed
  next
    assume "\<exists>pre post. c # cs = pre @ t @ post"
    then obtain pre post where eq: "c # cs = pre @ t @ post" by blast
    show "str_includes (c # cs) t"
    proof (cases pre)
      case Nil
      with eq have "prefix t (c # cs)" by (simp add: prefix_def)
      then show ?thesis by simp
    next
      case (Cons p ps)
      with eq have "cs = ps @ t @ post" by simp
      with Cons.IH have "str_includes cs t" by blast
      then show ?thesis by simp
    qed
  qed
qed

section \<open>Facts about the ring buffer\<close>

lemma trimBuffer_drop: "trimBuffer buf = drop (length buf - MAX_BUFFER_SIZE) buf"
proof (induction buf rule: trimBuffer.induct)
  case (1 buf)
  show ?case
  proof (cases "length buf > MAX_BUFFER_SIZE")
    case True
    then obtain x xs where buf: "buf = x # xs" by (cases buf) auto
    from True have "trimBuffer buf = trimBuffer (tl buf)" by (simp add: trimBuffer.simps)
    also have "\<dots> = drop (length (tl buf) - MAX_BUFFER_SIZE) (tl buf)" using 1 True by simp
    also have "\<dots> = drop (length buf - MAX_BUFFER_SIZE) buf"
      using True buf by (simp add: Suc_diff_le)
    finally show ?thesis .
  next
    case False
    then show ?thesis by (simp add: trimBuffer.simps)
  qed
qed

lemma lastN_append:
  "drop (length (drop (length xs - k) xs @ ys) - k) (drop (length xs - k) xs @ ys)
     = drop (length (xs @ ys) - k) (xs @ ys)"
proof (cases "length xs \<le> k")
  case True
  then show ?thesis by simp
next
  case False
  define d where "d = length xs - k"
  have len: "length xs = d + k" using False by (simp add: d_def)
  have "drop (length (drop d xs @ ys) - k) (drop d xs @ ys) = drop (length ys) (drop d (xs @ ys))"
    using len by simp
  also have "\<dots> = drop (length (xs @ ys) - k) (xs @ ys)"
    using len by (simp add: add.commute)
  finally show ?thesis by (simp add: d_def)
qed

lemma addToBuffer_buffered:
  "\<not> str_includes (serialize_args args) REPORTER_TAG \<Longrightarrow>
   addToBuffer lvl args now buf = trimBuffer (buf @ [mkEntry lvl (serialize_args args) now])"
  by (simp add: addToBuffer_def)

lemma console_calls_intercepting:
  "isIntercepting (console_calls cs st) = isIntercepting st"
  by (induction cs st rule: console_calls.induct) (auto simp: console_call_def)

lemma console_calls_buffer:
  "isIntercepting st \<Longrightarrow> \<forall>c\<in>set cs. buffered c \<Longrightarrow>
   trimBuffer (consoleBuffer (console_calls cs st)) =
     trimBuffer (consoleBuffer st @ map entry_of cs)"
proof (induction cs st rule: console_calls.induct)
  case (1 st)
  then show ?case by simp
next
  case (2 lvl args now cs st)
  let ?st' = "console_call lvl args now st"
  have nb: "\<not> str_includes (serialize_args args) REPORTER_TAG"
    using 2(3) by (simp add: buffered_def)
  have i': "isIntercepting ?st'" using 2(2) by (simp add: console_call_def)
  have b': "consoleBuffer ?st' = trimBuffer (consoleBuffer st @ [entry_of (lvl, args, now)])"
    using 2(2) nb by (simp add: console_call_def addToBuffer_buffered entry_of_def)
  have "trimBuffer (consoleBuffer (console_calls cs ?st')) =
        trimBuffer (consoleBuffer ?st' @ map entry_of cs)"
    using 2(1)[OF i'] 2(3) by simp
  also have "\<dots> = trimBuffer ((consoleBuffer st @ [entry_of (lvl, args, now)]) @ map entry_of cs)"
    unfolding b' trimBuffer_drop by (rule lastN_append)
  finally show ?case by simp
qed

text \<open>
  Claim C4. After more than \<open>MAX_BUFFER_SIZE = 50\<close> console calls that are buffered
  (capture is active and no message carries the reporter tag), whatever the buffer held
  before, the buffer holds exactly 50 entries, and they are the entries of the last 50
  calls in call order.
\<close>

theorem ring_buffer_keeps_most_recent:
  assumes "isIntercepting st"
    and "\<forall>c\<in>set cs. buffered c"
    and "length cs > MAX_BUFFER_SIZE"
  shows "length (consoleBuffer (console_calls cs st)) = MAX_BUFFER_SIZE \<and>
         consoleBuffer (console_calls cs st) = drop (length cs - MAX_BUFFER_SIZE) (map entry_of cs)"
proof -
  obtain c cs' where cs: "cs = cs' @ [c]"
    using assms(3) by (cases cs rule: rev_cases) auto
  obtain lvl args now where c: "c = (lvl, args, now)" by (cases c) auto
  let ?st' = "console_calls cs' st"
  have split: "console_calls cs st = console_call lvl args now ?st'"
    unfolding cs c by (induction cs' st rule: console_calls.induct) auto
  have i': "isIntercepting ?st'" using assms(1) by (simp add: console_calls_intercepting)
  have nb: "\<not> str_includes (serialize_args args) REPORTER_TAG"
    using assms(2) by (simp add: cs c buffered_def)
  have "consoleBuffer (console_calls cs st) = trimBuffer (consoleBuffer ?st' @ [entry_of c])"
    using i' nb by (simp add: split console_call_def addToBuffer_buffered entry_of_def c)
  also have "\<dots> = trimBuffer (trimBuffer (consoleBuffer ?st') @ [entry_of c])"
    unfolding trimBuffer_drop by (rule lastN_append [symmetric])
  also have "\<dots> = trimBuffer (trimBuffer (consoleBuffer st @ map entry_of cs') @ [entry_of c])"
    using console_calls_buffer [OF assms(1), of cs'] assms(2) by (simp add: cs)
  also have "\<dots> = trimBuffer ((consoleBuffer st @ map entry_of cs') @ [entry_of c])"
    unfolding trimBuffer_drop by (rule lastN_append)
  also have "\<dots> = drop (length cs - MAX_BUFFER_SIZE) (map entry_of cs)"
    using assms(3) by (simp add: trimBuffer_drop cs)
  finally have eq: "consoleBuffer (console_calls cs st) =
      drop (length cs - MAX_BUFFER_SIZE) (map entry_of cs)" .
  then show ?thesis using assms(3) by simp
qed

theorem ring_buffer_keeps_most_recent_witness:
  "consoleBuffer (console_calls (map (\<lambda>i. (Warn, [OtherArg ''tick''], int i)) [0..<51])
      \<lparr>consoleBuffer = [], isIntercepting = True, nativeCalls = []\<rparr>)
    = map (\<lambda>i. \<lparr>level = Warn, message = ''tick'', timestamp = int i\<rparr>) [1..<51]"
proof -
  let ?cs = "map (\<lambda>i. (Warn, [OtherArg ''tick''], int i)) [0..<51]"
  let ?st = "\<lparr>consoleBuffer = [], isIntercepting = True, nativeCalls = []\<rparr>"
  have a: "isIntercepting ?st" by simp
  have b: "\<forall>c\<in>set ?cs. buffered c"
    by (simp add: buffered_def serialize_args_def REPORTER_TAG_def)
  have c: "length ?cs > MAX_BUFFER_SIZE" by (simp add: MAX_BUFFER_SIZE_def)
  have "consoleBuffer (console_calls ?cs ?st) = drop (length ?cs - MAX_BUFFER_SIZE) (map entry_of ?cs)"
    using ring_buffer_keeps_most_recent [OF a b c] by simp
  also have "\<dots> = map (\<lambda>i. \<lparr>level = Warn, message = ''tick'', timestamp = int i\<rparr>) [1..<51]"
    by (simp add: MAX_BUFFER_SIZE_def drop_map entry_of_def mkEntry_def serialize_args_def)
  finally show ?thesis .
qed

text \<open>
  Claim C10. While capture is active, a \<open>console.error\<close> or \<open>console.warn\<close> call leaves
  the buffer as it was exactly when its serialised, space-joined message contains
  \<open>[ContextReporter]\<close> at some position, whoever emitted it; otherwise its entry is
  appended and is the newest entry of the buffer.
\<close>

theorem self_tagged_messages_skipped:
  assumes "isIntercepting st"
  shows "((\<exists>pre post. serialize_args args = pre @ REPORTER_TAG @ post) \<longrightarrow>
            consoleBuffer (console_call lvl args now st) = consoleBuffer st) \<and>
         (\<not> (\<exists>pre post. serialize_args args = pre @ REPORTER_TAG @ post) \<longrightarrow>
            consoleBuffer (console_call lvl args now st) =
              trimBuffer (consoleBuffer st @ [mkEntry lvl (serialize_args args) now]) \<and>
            consoleBuffer (console_call lvl args now st) \<noteq> [] \<and>
            last (consoleBuffer (console_call lvl args now st)) =
              mkEntry lvl (serialize_args args) now)"
proof -
  let ?e = "mkEntry lvl (serialize_args args) now"
  have "trimBuffer (consoleBuffer st @ [?e]) \<noteq> [] \<and> last (trimBuffer (consoleBuffer st @ [?e])) = ?e"
    by (simp add: trimBuffer_drop MAX_BUFFER_SIZE_def)
  then show ?thesis
    using assms by (auto simp: console_call_def addToBuffer_def includes_iff [symmetric] Let_def)
qed

theorem self_tagged_messages_skipped_witness:
  "consoleBuffer (console_call Error [OtherArg ''user note:'', OtherArg ''see [ContextReporter] docs''] 7
      \<lparr>consoleBuffer = [], isIntercepting = True, nativeCalls = []\<rparr>) = [] \<and>
   consoleBuffer (console_call Error [OtherArg ''boom''] 7
      \<lparr>consoleBuffer = [], isIntercepting = True, nativeCalls = []\<rparr>)
     = [\<lparr>level = Error, message = ''boom'', timestamp = 7\<rparr>]"
proof -
  let ?st = "\<lparr>consoleBuffer = [], isIntercepting = True, nativeCalls = []\<rparr>"
  have i: "isIntercepting ?st" by simp
  have yes: "\<exists>pre post. serialize_args [OtherArg ''user note:'', OtherArg ''see [ContextReporter] docs'']
      = pre @ REPORTER_TAG @ post"
    unfolding includes_iff [symmetric] by (simp add: serialize_args_def REPORTER_TAG_def)
  have no: "\<not> (\<exists>pre post. serialize_args [OtherArg ''boom''] = pre @ REPORTER_TAG @ post)"
    unfolding includes_iff [symmetric] by (simp add: serialize_args_def REPORTER_TAG_def)
  show ?thesis
    using self_tagged_messages_skipped [OF i, of "[OtherArg ''user note:'', OtherArg ''see [ContextReporter] docs'']" Error 7]
      self_tagged_messages_skipped [OF i, of "[OtherArg ''boom'']" Error 7] yes no
    by (simp add: trimBuffer.simps MAX_BUFFER_SIZE_def mkEntry_def serialize_args_def)
qed
section \<open>Facts about the ownership-path walker\<close>

lemma getAttribute_call_Inr:
  "getAttribute_call a attr = Inr r \<Longrightarrow> r = getAttribute a attr"
  by (auto simp: getAttribute_call_def split: sum.splits)

lemma visit_attribute_items:
  assumes "visit_attribute a acc = Inr acc'" and "a \<in> set chain"
    and "\<forall>c\<in>set (fst acc). attribute_item chain c"
  shows "\<forall>c\<in>set (fst acc'). attribute_item chain c"
proof -
  obtain allc seen where acc: "acc = (allc, seen)" by (cases acc)
  show ?thesis
  proof (cases "getAttribute_call a ''data-component''")
    case (Inl err)
    then show ?thesis using assms(1) acc by (simp add: visit_attribute_def)
  next
    case (Inr r)
    then have r: "getAttribute a ''data-component'' = r"
      using getAttribute_call_Inr by blast
    show ?thesis
    proof (cases r)
      case None
      then have "acc' = acc" using assms(1) acc Inr by (simp add: visit_attribute_def)
      then show ?thesis using assms(3) by simp
    next
      case (Some attr)
      show ?thesis
      proof (cases "attr \<noteq> [] \<and> attr \<notin> seen")
        case False
        then have "acc' = acc" using assms(1) acc Inr Some by (auto simp: visit_attribute_def)
        then show ?thesis using assms(3) by simp
      next
        case True
        then have a': "fst acc' = allc @ [\<lparr> name = attr, source = FromAttribute,
            sourceLocation = None, props = None, state = None \<rparr>]"
          using assms(1) acc Inr Some by (auto simp: visit_attribute_def)
        have "attribute_item chain \<lparr> name = attr, source = FromAttribute,
            sourceLocation = None, props = None, state = None \<rparr>"
          using True r Some assms(2) by (auto simp: attribute_item_def)
        then show ?thesis using a' assms(3) acc by auto
      qed
    qed
  qed
qed

lemma walk_attributes_items:
  "walk_attributes e acc = Inr acc' \<Longrightarrow> set (self_and_ancestors e) \<subseteq> set chain \<Longrightarrow>
   \<forall>c\<in>set (fst acc). attribute_item chain c \<Longrightarrow>
   \<forall>c\<in>set (fst acc'). attribute_item chain c"
proof (induction e acc arbitrary: acc' rule: walk_attributes.induct)
  case (1 d parent cs prv nxt acc)
  let ?e = "Element d parent cs prv nxt"
  from 1(2) obtain acc1 where v: "visit_attribute ?e acc = Inr acc1"
    by (cases "visit_attribute ?e acc") auto
  have self: "?e \<in> set chain" using 1(3) by simp
  have step: "\<forall>c\<in>set (fst acc1). attribute_item chain c"
    using visit_attribute_items [OF v self 1(4)] .
  show ?case
  proof (cases parent)
    case None
    then have "acc' = acc1" using 1(2) v by simp
    then show ?thesis using step by simp
  next
    case (Some p)
    have w: "walk_attributes p acc1 = Inr acc'" using 1(2) v Some by simp
    have sub: "set (self_and_ancestors p) \<subseteq> set chain" using 1(3) Some by simp
    from 1(1) [OF v Some w sub step] show ?thesis .
  qed
qed

lemma visit_attribute_none:
  assumes "getAttribute_call a ''data-component'' = Inr (getAttribute a ''data-component'')"
    and "getAttribute a ''data-component'' = None \<or> getAttribute a ''data-component'' = Some []"
  shows "visit_attribute a acc = Inr acc"
  using assms by (cases acc) (auto simp: visit_attribute_def)

lemma walk_attributes_none:
  "genuine_chain e \<Longrightarrow>
   \<forall>a\<in>set (self_and_ancestors e).
      getAttribute a ''data-component'' = None \<or> getAttribute a ''data-component'' = Some [] \<Longrightarrow>
   walk_attributes e acc = Inr acc"
proof (induction e acc rule: walk_attributes.induct)
  case (1 d parent cs prv nxt acc)
  let ?e = "Element d parent cs prv nxt"
  have g: "getAttribute_call ?e ''data-component'' = Inr (getAttribute ?e ''data-component'')"
    using 1(2) by (simp add: genuine_chain_def)
  have v: "visit_attribute ?e acc = Inr acc"
    using g 1(3) by (intro visit_attribute_none) simp_all
  show ?case
  proof (cases parent)
    case None
    then show ?thesis using v by simp
  next
    case (Some p)
    have gp: "genuine_chain p" using 1(2) Some by (simp add: genuine_chain_def)
    have "walk_attributes p acc = Inr acc"
      using 1(1) [OF v Some gp] 1(3) Some by simp
    then show ?thesis using Some v by simp
  qed
qed

lemma visit_attribute_returns:
  "getAttribute_call a ''data-component'' = Inr (getAttribute a ''data-component'') \<Longrightarrow>
   \<exists>acc'. visit_attribute a acc = Inr acc'"
  by (cases acc) (auto simp: visit_attribute_def split: option.splits)

lemma walk_attributes_returns:
  "genuine_chain e \<Longrightarrow> \<exists>acc'. walk_attributes e acc = Inr acc'"
proof (induction e acc rule: walk_attributes.induct)
  case (1 d parent cs prv nxt acc)
  let ?e = "Element d parent cs prv nxt"
  have g: "getAttribute_call ?e ''data-component'' = Inr (getAttribute ?e ''data-component'')"
    using 1(2) by (simp add: genuine_chain_def)
  then obtain acc1 where v: "visit_attribute ?e acc = Inr acc1"
    using visit_attribute_returns by blast
  show ?case
  proof (cases parent)
    case None
    then show ?thesis using v by simp
  next
    case (Some p)
    have gp: "genuine_chain p" using 1(2) Some by (simp add: genuine_chain_def)
    from 1(1) [OF v Some gp] show ?thesis using Some v by simp
  qed
qed

lemma walk_attributes_throws:
  "boundingClientRect (data e) = Inl err \<Longrightarrow> walk_attributes e acc = Inl err"
  by (cases e; cases acc) (simp add: visit_attribute_def getAttribute_call_def)

lemma visit_attribute_names:
  "visit_attribute a acc = Inr acc' \<Longrightarrow> \<forall>c\<in>set (fst acc). name c \<noteq> [] \<Longrightarrow>
   \<forall>c\<in>set (fst acc'). name c \<noteq> []"
  by (cases acc) (auto simp: visit_attribute_def split: option.splits sum.splits if_splits)

lemma walk_attributes_names:
  "walk_attributes e acc = Inr acc' \<Longrightarrow> \<forall>c\<in>set (fst acc). name c \<noteq> [] \<Longrightarrow>
   \<forall>c\<in>set (fst acc'). name c \<noteq> []"
proof (induction e acc arbitrary: acc' rule: walk_attributes.induct)
  case (1 d parent cs prv nxt acc)
  let ?e = "Element d parent cs prv nxt"
  from 1(2) obtain acc1 where v: "visit_attribute ?e acc = Inr acc1"
    by (cases "visit_attribute ?e acc") auto
  have step: "\<forall>c\<in>set (fst acc1). name c \<noteq> []"
    using visit_attribute_names [OF v 1(3)] .
  show ?case
  proof (cases parent)
    case None
    then have "acc' = acc1" using 1(2) v by simp
    then show ?thesis using step by simp
  next
    case (Some p)
    have w: "walk_attributes p acc1 = Inr acc'" using 1(2) v Some by simp
    from 1(1) [OF v Some w step] show ?thesis .
  qed
qed

lemma fiber_item_name: "fiber_item f nm = Inr ci \<Longrightarrow> name ci = nm"
  by (auto simp: fiber_item_def split: sum.splits if_splits)

lemma visit_fiber_names:
  assumes "visit_fiber f acc = Inr acc'" and "\<forall>c\<in>set (fst acc). name c \<noteq> []"
  shows "\<forall>c\<in>set (fst acc'). name c \<noteq> []"
proof -
  obtain allc seen where acc: "acc = (allc, seen)" by (cases acc)
  show ?thesis
  proof (cases "isComponentFiber f")
    case False
    then show ?thesis using assms acc by (simp add: visit_fiber_def)
  next
    case True
    show ?thesis
    proof (cases "getComponentName f")
      case None
      then show ?thesis using assms acc True by (simp add: visit_fiber_def)
    next
      case (Some nm)
      show ?thesis
      proof (cases "nm \<noteq> [] \<and> nm \<notin> seen")
        case False
        then show ?thesis using assms acc True Some by (auto simp: visit_fiber_def)
      next
        case ok: True
        then obtain ci where it: "fiber_item f nm = Inr ci" and a': "acc' = (ci # allc, insert nm seen)"
          using assms(1) acc True Some
          by (cases "fiber_item f nm") (auto simp: visit_fiber_def)
        have "name ci = nm" using it by (rule fiber_item_name)
        then show ?thesis using a' ok assms(2) acc by auto
      qed
    qed
  qed
qed

lemma walk_fibers_names:
  "walk_fibers f acc = Inr acc' \<Longrightarrow> \<forall>c\<in>set (fst acc). name c \<noteq> [] \<Longrightarrow>
   \<forall>c\<in>set (fst acc'). name c \<noteq> []"
proof (induction f acc arbitrary: acc' rule: walk_fibers.induct)
  case (1 tg ty mp ms ds ret acc)
  let ?f = "Fiber tg ty mp ms ds ret"
  from 1(2) obtain acc1 where v: "visit_fiber ?f acc = Inr acc1"
    by (cases "visit_fiber ?f acc") auto
  have step: "\<forall>c\<in>set (fst acc1). name c \<noteq> []"
    using visit_fiber_names [OF v 1(3)] .
  show ?case
  proof (cases ret)
    case None
    then have "acc' = acc1" using 1(2) v by simp
    then show ?thesis using step by simp
  next
    case (Some parent)
    have w: "walk_fibers parent acc1 = Inr acc'" using 1(2) v Some by simp
    from 1(1) [OF v Some w step] show ?thesis .
  qed
qed

lemma extractProps_loop_returns:
  "Some Revoked \<notin> set (map snd mp) \<Longrightarrow> \<exists>r. extractProps_loop mp acc = Inr r"
proof (induction mp acc rule: extractProps_loop.induct)
  case (1 acc)
  then show ?case by simp
next
  case (2 key rd rest ps hasProps)
  have nr: "rd \<noteq> Some Revoked" and rest: "Some Revoked \<notin> set (map snd rest)" using 2(3) by auto
  have "\<exists>r. sanitize_prop key rd = Inr r"
  proof (cases rd)
    case None
    then show ?thesis by (simp add: sanitize_prop_def)
  next
    case (Some fv)
    then obtain v where "fv = Plain v" using nr by (cases fv) auto
    then show ?thesis using Some by (simp add: sanitize_prop_def)
  qed
  then obtain r where s: "sanitize_prop key rd = Inr r" by blast
  show ?case
  proof (cases r)
    case None
    then show ?thesis using 2(1) [OF s None rest] s by simp
  next
    case (Some v)
    then show ?thesis using 2(2) [OF s Some rest] s by simp
  qed
qed

lemma localState_loop_returns:
  "Revoked \<notin> set cells \<Longrightarrow> \<exists>r. localState_loop cells count states = Inr r"
proof (induction cells count states rule: localState_loop.induct)
  case (1 count states)
  then show ?case by simp
next
  case (2 v rest count states)
  obtain pv where pv: "v = Plain pv" using 2(3) by (cases v) auto
  have rest: "Revoked \<notin> set rest" using 2(3) by simp
  show ?case
  proof (cases "count < 10")
    case False
    then show ?thesis by simp
  next
    case True
    show ?thesis
    proof (cases "plain_cell pv")
      case None
      then show ?thesis using 2(1) [OF True _ None rest] True pv by simp
    next
      case (Some s)
      then show ?thesis using 2(2) [OF True _ Some rest] True pv by simp
    qed
  qed
qed

lemma fiber_item_returns:
  assumes "reads_return f"
  shows "\<exists>ci. fiber_item f nm = Inr ci"
proof -
  obtain loc where l: "extractSourceLocation f = Inr loc"
    using assms by (auto simp: reads_return_def extractSourceLocation_def split: option.splits)
  obtain ps where p: "extractProps f = Inr ps"
  proof (cases "memoizedProps f")
    case None
    then show ?thesis using that by (simp add: extractProps_def)
  next
    case (Some mp)
    then have "Some Revoked \<notin> set (map snd mp)" using assms by (simp add: reads_return_def)
    then obtain r where "extractProps_loop mp ([], False) = Inr r"
      using extractProps_loop_returns by blast
    then show ?thesis using that Some by (cases r) (simp add: extractProps_def)
  qed
  obtain ls where s: "extractLocalState f = Inr ls"
  proof (cases "tag f \<noteq> FUNCTION_COMPONENT")
    case True
    then show ?thesis using that by (simp add: extractLocalState_def)
  next
    case False
    have "Revoked \<notin> set (memoizedState f)" using assms by (simp add: reads_return_def)
    then obtain r where "localState_loop (memoizedState f) 0 [] = Inr r"
      using localState_loop_returns by blast
    then show ?thesis using that False by (simp add: extractLocalState_def Let_def)
  qed
  show ?thesis by (simp add: fiber_item_def l p s)
qed

lemma visit_fiber_returns:
  "reads_return f \<Longrightarrow> \<exists>acc'. visit_fiber f acc = Inr acc'"
proof -
  assume r: "reads_return f"
  obtain allc seen where acc: "acc = (allc, seen)" by (cases acc)
  show ?thesis
  proof (cases "getComponentName f")
    case None
    then show ?thesis using acc by (simp add: visit_fiber_def)
  next
    case (Some nm)
    obtain ci where "fiber_item f nm = Inr ci" using fiber_item_returns [OF r] by blast
    then show ?thesis using acc Some by (simp add: visit_fiber_def)
  qed
qed

lemma walk_fibers_returns:
  "list_all reads_return (fiber_chain f) \<Longrightarrow> \<exists>acc'. walk_fibers f acc = Inr acc'"
proof (induction f acc rule: walk_fibers.induct)
  case (1 tg ty mp ms ds ret acc)
  let ?f = "Fiber tg ty mp ms ds ret"
  have "reads_return ?f" using 1(2) by simp
  then obtain acc1 where v: "visit_fiber ?f acc = Inr acc1" using visit_fiber_returns by blast
  show ?case
  proof (cases ret)
    case None
    then show ?thesis using v by simp
  next
    case (Some parent)
    have "list_all reads_return (fiber_chain parent)" using 1(2) Some by simp
    from 1(1) [OF v Some this] show ?thesis using v Some by simp
  qed
qed

lemma filter_components_subset: "set (filter_components xs) \<subseteq> set xs"
  by (auto simp: filter_components_def slice_last_def Let_def dest: in_set_dropD)

lemma collectComponents_names:
  assumes "collectComponents e = Inr xs"
  shows "\<forall>c\<in>set xs. name c \<noteq> []"
proof -
  obtain acc where f: "(case getFiberFromElement e of None \<Rightarrow> Inr ([], {})
        | Some f \<Rightarrow> walk_fibers f ([], {})) = Inr acc"
    using assms by (auto simp: collectComponents_def split: sum.splits)
  obtain acc' where w: "walk_attributes e acc = Inr acc'" and xs: "xs = fst acc'"
    using assms f by (auto simp: collectComponents_def split: sum.splits)
  have "\<forall>c\<in>set (fst acc). name c \<noteq> []"
  proof (cases "getFiberFromElement e")
    case None
    then show ?thesis using f by auto
  next
    case (Some fb)
    then have "walk_fibers fb ([], {}) = Inr acc" using f by simp
    then show ?thesis by (rule walk_fibers_names) simp
  qed
  then show ?thesis using walk_attributes_names [OF w] xs by simp
qed

lemma collectComponents_returns:
  assumes "genuine_chain e"
    and "case getFiberFromElement e of None \<Rightarrow> True | Some f \<Rightarrow> list_all reads_return (fiber_chain f)"
  shows "\<exists>xs. collectComponents e = Inr xs"
proof -
  obtain acc where f: "(case getFiberFromElement e of None \<Rightarrow> Inr ([], {})
        | Some f \<Rightarrow> walk_fibers f ([], {})) = Inr acc"
  proof (cases "getFiberFromElement e")
    case None
    then show ?thesis using that by simp
  next
    case (Some fb)
    then have "list_all reads_return (fiber_chain fb)" using assms(2) by simp
    then obtain a where "walk_fibers fb ([], {}) = Inr a" using walk_fibers_returns by blast
    then show ?thesis using that Some by simp
  qed
  obtain acc' where "walk_attributes e acc = Inr acc'"
    using walk_attributes_returns [OF assms(1)] by blast
  then show ?thesis using f by (simp add: collectComponents_def)
qed

text \<open>
  Claim C3, as the code has it. \<open>extractComponentPath\<close> guards the reads inside
  \<open>extractProps\<close> and \<open>extractLocalState\<close> that their \<open>try\<close> blocks cover, and has no
  guard around \<open>getAttribute\<close>. When \<open>getAttribute\<close> returns on the element and its
  ancestors and the reads of the attached fibers that no \<open>try\<close> covers return, it returns
  a list, every item of which has a non-empty name. When moreover no fiber is attached,
  every returned item comes from a \<open>data-component\<close> attribute of the element or one of
  its ancestors and carries no source location, properties or state, and the list is
  empty when no such attribute is set. When no fiber is attached and \<open>getAttribute\<close>
  throws on the element, that exception leaves the function.
\<close>

theorem path_returned_on_genuine_element:
  "(genuine_chain e \<and>
      (case getFiberFromElement e of None \<Rightarrow> True
       | Some f \<Rightarrow> list_all reads_return (fiber_chain f)) \<longrightarrow>
      (\<exists>path. extractComponentPath e = Inr path \<and> (\<forall>c\<in>set path. name c \<noteq> []))) \<and>
   (genuine_chain e \<and> getFiberFromElement e = None \<longrightarrow>
      (\<exists>path. extractComponentPath e = Inr path \<and>
         (\<forall>c\<in>set path.
             source c = FromAttribute \<and> sourceLocation c = None \<and> props c = None \<and>
             state c = None \<and>
             (\<exists>a\<in>set (self_and_ancestors e). getAttribute a ''data-component'' = Some (name c))) \<and>
         ((\<forall>a\<in>set (self_and_ancestors e).
              getAttribute a ''data-component'' = None \<or>
              getAttribute a ''data-component'' = Some []) \<longrightarrow>
          path = []))) \<and>
   (getFiberFromElement e = None \<and> getAttribute_call e ''data-component'' = Inl err \<longrightarrow>
      extractComponentPath e = Inl err)"
proof (intro conjI impI)
  assume a: "genuine_chain e \<and>
      (case getFiberFromElement e of None \<Rightarrow> True
       | Some f \<Rightarrow> list_all reads_return (fiber_chain f))"
  then obtain xs where c: "collectComponents e = Inr xs"
    using collectComponents_returns by blast
  have "\<forall>c\<in>set xs. name c \<noteq> []" using c by (rule collectComponents_names)
  then have "\<forall>c\<in>set (filter_components xs). name c \<noteq> []"
    using filter_components_subset [of xs] by blast
  then show "\<exists>path. extractComponentPath e = Inr path \<and> (\<forall>c\<in>set path. name c \<noteq> [])"
    using c by (simp add: extractComponentPath_def)
next
  assume a: "genuine_chain e \<and> getFiberFromElement e = None"
  then obtain acc' where w: "walk_attributes e ([], {}) = Inr acc'"
    using walk_attributes_returns by blast
  have c: "collectComponents e = Inr (fst acc')" using a w by (simp add: collectComponents_def)
  have items: "\<forall>c\<in>set (fst acc'). attribute_item (self_and_ancestors e) c"
    using walk_attributes_items [OF w] by simp
  have p1: "\<forall>c\<in>set (filter_components (fst acc')).
             source c = FromAttribute \<and> sourceLocation c = None \<and> props c = None \<and>
             state c = None \<and>
             (\<exists>a\<in>set (self_and_ancestors e). getAttribute a ''data-component'' = Some (name c))"
    using items filter_components_subset [of "fst acc'"] by (auto simp: attribute_item_def)
  have p2: "(\<forall>a\<in>set (self_and_ancestors e).
              getAttribute a ''data-component'' = None \<or>
              getAttribute a ''data-component'' = Some []) \<longrightarrow>
          filter_components (fst acc') = []"
  proof
    assume "\<forall>a\<in>set (self_and_ancestors e).
              getAttribute a ''data-component'' = None \<or>
              getAttribute a ''data-component'' = Some []"
    then have "walk_attributes e ([], {}) = Inr ([], {})"
      using a walk_attributes_none by blast
    then have "fst acc' = []" using w by simp
    then show "filter_components (fst acc') = []" by (simp add: filter_components_def)
  qed
  show "\<exists>path. extractComponentPath e = Inr path \<and>
         (\<forall>c\<in>set path.
             source c = FromAttribute \<and> sourceLocation c = None \<and> props c = None \<and>
             state c = None \<and>
             (\<exists>a\<in>set (self_and_ancestors e). getAttribute a ''data-component'' = Some (name c))) \<and>
         ((\<forall>a\<in>set (self_and_ancestors e).
              getAttribute a ''data-component'' = None \<or>
              getAttribute a ''data-component'' = Some []) \<longrightarrow>
          path = [])"
    using c p1 p2 by (simp add: extractComponentPath_def)
next
  assume a: "getFiberFromElement e = None \<and> getAttribute_call e ''data-component'' = Inl err"
  then have "boundingClientRect (data e) = Inl err"
    by (simp add: getAttribute_call_def split: sum.splits)
  then have "walk_attributes e ([], {}) = Inl err" by (rule walk_attributes_throws)
  then show "extractComponentPath e = Inl err"
    using a by (simp add: extractComponentPath_def collectComponents_def)
qed

theorem path_returned_on_genuine_element_witness:
  "map_sum id (map source) (extractComponentPath card_in_page) = Inr [FromAttribute, FromAttribute] \<and>
   extractComponentPath bare_element = Inr [] \<and>
   (\<exists>path. extractComponentPath (with_fiber mixed_chain) = Inr path \<and>
      list_all (\<lambda>c. name c \<noteq> []) path) \<and>
   extractComponentPath proxy_card = Inl (JsError ''TypeError: Illegal invocation'')"
proof -
  have f1: "getFiberFromElement card_in_page = None" by code_simp
  have g1: "genuine_chain card_in_page" by code_simp
  have f2: "getFiberFromElement bare_element = None" by code_simp
  have g2: "genuine_chain bare_element" by code_simp
  obtain path where p: "extractComponentPath card_in_page = Inr path"
    and src: "\<forall>c\<in>set path. source c = FromAttribute"
    using path_returned_on_genuine_element [of card_in_page] f1 g1 by blast
  have "map_sum id length (extractComponentPath card_in_page) = Inr 2" by code_simp
  then have len: "length path = 2" using p by simp
  have "map source path = replicate (length path) FromAttribute"
    using src by (simp add: map_replicate_const [symmetric] cong: map_cong)
  then have a: "map_sum id (map source) (extractComponentPath card_in_page) =
      Inr [FromAttribute, FromAttribute]"
    using p len by (simp add: numeral_2_eq_2)
  have none: "\<forall>a\<in>set (self_and_ancestors bare_element).
      getAttribute a ''data-component'' = None \<or> getAttribute a ''data-component'' = Some []"
    by (simp add: bare_element_def getAttribute_def plain_data_def)
  obtain path2 where p2: "extractComponentPath bare_element = Inr path2"
    and e2: "(\<forall>a\<in>set (self_and_ancestors bare_element).
              getAttribute a ''data-component'' = None \<or>
              getAttribute a ''data-component'' = Some []) \<longrightarrow> path2 = []"
    using path_returned_on_genuine_element [of bare_element] f2 g2 by blast
  have b: "extractComponentPath bare_element = Inr []" using p2 e2 none by simp
  have g3: "genuine_chain (with_fiber mixed_chain)" by code_simp
  have r3: "case getFiberFromElement (with_fiber mixed_chain) of None \<Rightarrow> True
            | Some f \<Rightarrow> list_all reads_return (fiber_chain f)" by code_simp
  have c: "\<exists>path. extractComponentPath (with_fiber mixed_chain) = Inr path \<and>
      list_all (\<lambda>c. name c \<noteq> []) path"
    using path_returned_on_genuine_element [of "with_fiber mixed_chain"] g3 r3
    by (simp add: list_all_iff)
  have f4: "getFiberFromElement proxy_card = None" by code_simp
  have t4: "getAttribute_call proxy_card ''data-component'' =
      Inl (JsError ''TypeError: Illegal invocation'')" by code_simp
  have d: "extractComponentPath proxy_card = Inl (JsError ''TypeError: Illegal invocation'')"
    using path_returned_on_genuine_element
      [of proxy_card "JsError ''TypeError: Illegal invocation''"] f4 t4 by blast
  show ?thesis using a b c d by simp
qed

text \<open>
  Claim C3, as stated, fails: on a proxy around an element, with no fiber attached,
  \<open>current.getAttribute('data-component')\<close> throws and \<open>extractComponentPath\<close> throws with
  it; and on a genuine element whose component keeps a revoked proxy in a hook cell,
  \<open>isMeaningfulStateValue\<close>, which no \<open>try\<close> covers, throws.
\<close>

theorem path_throws_on_proxy:
  "getFiberFromElement proxy_backed = None \<and>
   extractComponentPath proxy_backed = Inl (JsError ''TypeError: Illegal invocation'') \<and>
   extractComponentPath (with_fiber draft_fiber) =
     Inl (JsError ''TypeError: illegal operation attempted on a revoked proxy'')"
  by code_simp

text \<open>
  Claim C9. With \<open>collectComponents\<close> the resolved list before filtering: if it is not
  empty and every name in it matches a framework pattern, \<open>extractComponentPath\<close> returns
  its last entries, at most 5 and at least one, unfiltered; in every other case it
  returns exactly the entries whose name matches no framework pattern. When the
  collection ends with an exception, \<open>extractComponentPath\<close> ends with that exception.
\<close>

theorem noise_filter_fallback:
  "(case collectComponents e of
      Inl err \<Rightarrow> extractComponentPath e = Inl err
    | Inr allComponents \<Rightarrow>
        (allComponents \<noteq> [] \<and> (\<forall>c\<in>set allComponents. isFrameworkComponent (name c)) \<longrightarrow>
           (\<exists>path. extractComponentPath e = Inr path \<and>
              path = slice_last 5 allComponents \<and> path \<noteq> [] \<and> length path \<le> 5 \<and>
              suffix path allComponents)) \<and>
        (\<not> (allComponents \<noteq> [] \<and> (\<forall>c\<in>set allComponents. isFrameworkComponent (name c))) \<longrightarrow>
           (\<exists>path. extractComponentPath e = Inr path \<and>
              path = filter (\<lambda>c. \<not> isFrameworkComponent (name c)) allComponents \<and>
              (\<forall>c\<in>set path. \<not> isFrameworkComponent (name c)))))"
proof (cases "collectComponents e")
  case (Inl err)
  then show ?thesis by (simp add: extractComponentPath_def)
next
  case (Inr xs)
  have ex: "extractComponentPath e = Inr (filter_components xs)"
    using Inr by (simp add: extractComponentPath_def)
  have one: "xs \<noteq> [] \<and> (\<forall>c\<in>set xs. isFrameworkComponent (name c)) \<longrightarrow>
           (\<exists>path. extractComponentPath e = Inr path \<and>
              path = slice_last 5 xs \<and> path \<noteq> [] \<and> length path \<le> 5 \<and> suffix path xs)"
  proof
    assume a: "xs \<noteq> [] \<and> (\<forall>c\<in>set xs. isFrameworkComponent (name c))"
    then have f: "filter (\<lambda>c. \<not> isFrameworkComponent (name c)) xs = []"
      by (simp add: filter_empty_conv)
    have eq: "filter_components xs = slice_last 5 xs"
      using a f by (simp add: filter_components_def)
    have "0 < length xs" using a by simp
    then have "length xs - 5 < length xs" by arith
    then have ne: "slice_last 5 xs \<noteq> []" by (simp add: slice_last_def)
    have le: "length (slice_last 5 xs) \<le> 5" by (simp add: slice_last_def)
    have sf: "suffix (slice_last 5 xs) xs" by (simp add: slice_last_def suffix_drop)
    show "\<exists>path. extractComponentPath e = Inr path \<and>
              path = slice_last 5 xs \<and> path \<noteq> [] \<and> length path \<le> 5 \<and> suffix path xs"
      using ex eq ne le sf by simp
  qed
  have two: "\<not> (xs \<noteq> [] \<and> (\<forall>c\<in>set xs. isFrameworkComponent (name c))) \<longrightarrow>
           (\<exists>path. extractComponentPath e = Inr path \<and>
              path = filter (\<lambda>c. \<not> isFrameworkComponent (name c)) xs \<and>
              (\<forall>c\<in>set path. \<not> isFrameworkComponent (name c)))"
  proof
    assume n: "\<not> (xs \<noteq> [] \<and> (\<forall>c\<in>set xs. isFrameworkComponent (name c)))"
    then have "xs = [] \<or> filter (\<lambda>c. \<not> isFrameworkComponent (name c)) xs \<noteq> []"
      by (auto simp: filter_empty_conv)
    then have "filter_components xs = filter (\<lambda>c. \<not> isFrameworkComponent (name c)) xs"
      by (auto simp: filter_components_def)
    then show "\<exists>path. extractComponentPath e = Inr path \<and>
              path = filter (\<lambda>c. \<not> isFrameworkComponent (name c)) xs \<and>
              (\<forall>c\<in>set path. \<not> isFrameworkComponent (name c))"
      using ex by simp
  qed
  show ?thesis using Inr one two by simp
qed

theorem noise_filter_fallback_witness:
  "map_sum id (map name) (extractComponentPath (with_fiber noisy_chain)) =
     Inr [''Router'', ''__next_layout__'', ''ErrorBoundary'', ''Suspense'', ''ThemeContext''] \<and>
   map_sum id (map name) (extractComponentPath (with_fiber mixed_chain)) =
     Inr [''Toolbar'', ''SaveButton'']"
proof -
  obtain xs1 where c1: "collectComponents (with_fiber noisy_chain) = Inr xs1"
    and all1: "map name xs1 =
      [''ServerRoot'', ''Router'', ''__next_layout__'', ''ErrorBoundary'', ''Suspense'', ''ThemeContext'']"
  proof -
    have "map_sum id (map name) (collectComponents (with_fiber noisy_chain)) =
      Inr [''ServerRoot'', ''Router'', ''__next_layout__'', ''ErrorBoundary'', ''Suspense'', ''ThemeContext'']"
      by code_simp
    then show ?thesis using that by (cases "collectComponents (with_fiber noisy_chain)") auto
  qed
  have noise: "list_all isFrameworkComponent
    [''ServerRoot'', ''Router'', ''__next_layout__'', ''ErrorBoundary'', ''Suspense'', ''ThemeContext'']"
    by code_simp
  have h1: "xs1 \<noteq> [] \<and> (\<forall>c\<in>set xs1. isFrameworkComponent (name c))"
  proof
    show "xs1 \<noteq> []" using all1 by auto
    have "list_all isFrameworkComponent (map name xs1)" using noise by (simp only: all1)
    then show "\<forall>c\<in>set xs1. isFrameworkComponent (name c)" by (simp add: list_all_iff)
  qed
  have r1: "extractComponentPath (with_fiber noisy_chain) = Inr (slice_last 5 xs1)"
    using noise_filter_fallback [of "with_fiber noisy_chain"] h1 by (simp add: c1)
  have len1: "length xs1 = 6" using arg_cong [OF all1, of length] by simp
  have "map name (slice_last 5 xs1) =
     [''Router'', ''__next_layout__'', ''ErrorBoundary'', ''Suspense'', ''ThemeContext'']"
    unfolding slice_last_def drop_map [symmetric] all1 by (simp add: len1)
  then have p1: "map_sum id (map name) (extractComponentPath (with_fiber noisy_chain)) =
     Inr [''Router'', ''__next_layout__'', ''ErrorBoundary'', ''Suspense'', ''ThemeContext'']"
    by (simp add: r1)
  obtain xs2 where c2: "collectComponents (with_fiber mixed_chain) = Inr xs2"
    and all2: "map name xs2 = [''Provider'', ''Toolbar'', ''Suspense'', ''SaveButton'']"
  proof -
    have "map_sum id (map name) (collectComponents (with_fiber mixed_chain)) =
      Inr [''Provider'', ''Toolbar'', ''Suspense'', ''SaveButton'']"
      by code_simp
    then show ?thesis using that by (cases "collectComponents (with_fiber mixed_chain)") auto
  qed
  have app: "\<not> isFrameworkComponent ''Toolbar''" by code_simp
  have h2: "\<not> (xs2 \<noteq> [] \<and> (\<forall>c\<in>set xs2. isFrameworkComponent (name c)))"
  proof -
    have "''Toolbar'' \<in> set (map name xs2)" by (simp only: all2) simp
    then show ?thesis using app by auto
  qed
  have r2: "extractComponentPath (with_fiber mixed_chain) =
      Inr (filter (\<lambda>c. \<not> isFrameworkComponent (name c)) xs2)"
    using noise_filter_fallback [of "with_fiber mixed_chain"] h2 by (simp add: c2)
  have "map name (filter (\<lambda>c. \<not> isFrameworkComponent (name c)) xs2) =
      filter (\<lambda>n. \<not> isFrameworkComponent n) (map name xs2)"
    by (simp add: filter_map comp_def)
  also have "\<dots> = [''Toolbar'', ''SaveButton'']"
    unfolding all2 by code_simp
  finally have p2: "map_sum id (map name) (extractComponentPath (with_fiber mixed_chain)) =
      Inr [''Toolbar'', ''SaveButton'']"
    by (simp add: r2)
  show ?thesis using p1 p2 by simp
qed

section \<open>Facts about the state adapter registry\<close>

lemma cleanState_deep:
  "deep_clean (cleanState v)"
  "deep_clean_elements (cleanElements vs)"
  "deep_clean_entries (cleanEntries kvs)"
  by (induction v and vs and kvs rule: cleanState_cleanElements_cleanEntries.induct)
     (auto simp: Let_def skipped_key_def)

lemma cleanState_top:
  "cleanState v \<noteq> JNull \<and> cleanState v \<noteq> JArr [] \<and> cleanState v \<noteq> JObj []"
  by (cases v) (auto simp: Let_def)

lemma cleanState_object_or_array:
  "typeof_object S \<Longrightarrow> cleanState S = JUndefined \<or> isMeaningfulValue (cleanState S)"
  by (cases S) (auto simp: Let_def)

text \<open>
  Claim C6. For every value \<open>S\<close>, nothing inside \<open>cleanState S\<close>, at any depth, is a property
  with a noise key or a key starting with \<open>$$\<close> or \<open>_\<close>, nor a property value or array
  element that is \<open>null\<close>, \<open>undefined\<close>, the empty string, \<open>false\<close>, an empty array or an
  empty object. The result itself is never \<open>null\<close>, an empty array or an empty object:
  what cleans to nothing is \<open>undefined\<close>, and a primitive is returned as it is. For an
  object or an array, as the adapters return, the result is \<open>undefined\<close> or a non-empty
  object or array.
\<close>

theorem cleanState_result_is_clean:
  "deep_clean (cleanState S) \<and>
   cleanState S \<noteq> JNull \<and> cleanState S \<noteq> JArr [] \<and> cleanState S \<noteq> JObj [] \<and>
   (typeof_object S \<longrightarrow> cleanState S = JUndefined \<or> isMeaningfulValue (cleanState S))"
  using cleanState_deep(1) [of S] cleanState_top [of S] cleanState_object_or_array [of S] by simp

theorem cleanState_result_is_clean_witness:
  "cleanState nested_state = JObj [(''user'', JObj [(''name'', JStr ''ann'')]), (''cart'', JArr [JNum ''0''])] \<and>
   deep_clean (cleanState nested_state)"
proof -
  have "cleanState nested_state =
      JObj [(''user'', JObj [(''name'', JStr ''ann'')]), (''cart'', JArr [JNum ''0''])]"
    by code_simp
  then show ?thesis using cleanState_result_is_clean [of nested_state] by simp
qed

















section \<open>The element snapshot\<close>











lemma extractElementInfo_Inr:
  assumes "boundingClientRect (data e) = Inr r" and "computedStyle (data e) = Inr c"
  shows "extractElementInfo e =
     Inr \<lparr> info_tagName = tagName (data e),
           info_id = elem_id (data e),
           info_className = (case className (data e) of Some cls \<Rightarrow> cls | None \<Rightarrow> []),
           info_textContent = extract_textContent e,
           info_attributes = attributes_loop (attributes (data e)) [],
           boundingRect = \<lparr> x_px = Math_round (rect_x r), y_px = Math_round (rect_y r),
                            width_px = Math_round (rect_width r),
                            height_px = Math_round (rect_height r) \<rparr>,
           selector = generateUniqueSelector e,
           computedStyles = styles_loop c STYLE_PROPERTIES [],
           domContext = extractDOMContext e,
           accessibility = extractAccessibility e \<rparr>"
  using assms by (simp add: extractElementInfo_def extractComputedStyles_def)












text \<open>
  Claim C2, as the code has it. \<open>extractElementInfo\<close> has no guard. When
  \<open>getBoundingClientRect()\<close> throws, or else \<open>getComputedStyle()\<close> throws, that exception
  leaves the function; when both return, whatever else the state of the element, a
  snapshot is returned, with defaults where the element has no value: an empty class name
  when \<open>className\<close> is not a string, an empty text when \<open>textContent\<close> is \<open>null\<close>, no
  parents when the element is detached, \<open>null\<close> for a missing sibling.
\<close>

theorem snapshot_or_exception:
  "(case boundingClientRect (data e) of
      Inl err \<Rightarrow> extractElementInfo e = Inl err
    | Inr r \<Rightarrow>
        (case computedStyle (data e) of
           Inl err \<Rightarrow> extractElementInfo e = Inl err
         | Inr c \<Rightarrow>
             (\<exists>info. extractElementInfo e = Inr info \<and>
                info_tagName info = tagName (data e) \<and>
                info_id info = elem_id (data e) \<and>
                (className (data e) = None \<longrightarrow> info_className info = []) \<and>
                (textContent (data e) = None \<longrightarrow> info_textContent info = []) \<and>
                (parentElement e = None \<longrightarrow> parents (domContext info) = []) \<and>
                (previousElementSibling e = None \<longrightarrow> previousSibling (domContext info) = None) \<and>
                (nextElementSibling e = None \<longrightarrow> nextSibling (domContext info) = None))))"
proof (cases "boundingClientRect (data e)")
  case (Inl err)
  then show ?thesis by (simp add: extractElementInfo_def)
next
  case (Inr r)
  show ?thesis
  proof (cases "computedStyle (data e)")
    case (Inl err)
    then show ?thesis using Inr by (simp add: extractElementInfo_def extractComputedStyles_def)
  next
    case (Inr c)
    show ?thesis
      using \<open>boundingClientRect (data e) = Inr r\<close> Inr
      unfolding extractElementInfo_Inr [OF \<open>boundingClientRect (data e) = Inr r\<close> Inr]
      by (simp add: extract_textContent_def extractDOMContext_def getElementSummary_def)
  qed
qed

theorem snapshot_or_exception_witness:
  "\<exists>info. extractElementInfo svg_detached = Inr info \<and>
          info_tagName info = ''circle'' \<and> info_className info = [] \<and>
          info_textContent info = [] \<and> parents (domContext info) = [] \<and>
          previousSibling (domContext info) = None \<and> nextSibling (domContext info) = None"
proof -
  have "\<exists>info. extractElementInfo svg_detached = Inr info \<and>
          info_tagName info = ''circle'' \<and> info_id info = [] \<and> info_className info = [] \<and>
          info_textContent info = [] \<and> parents (domContext info) = [] \<and>
          previousSibling (domContext info) = None \<and> nextSibling (domContext info) = None"
    using snapshot_or_exception [of svg_detached]
    by (simp add: svg_detached_def plain_data_def)
  then show ?thesis by blast
qed

text \<open>
  Claim C2, as stated, fails: on an element whose \<open>getBoundingClientRect()\<close> throws (a
  proxy around an element is not a genuine receiver), \<open>extractElementInfo\<close> throws.
\<close>

theorem snapshot_throws_on_proxy:
  "extractElementInfo proxy_backed = Inl (JsError ''TypeError: Illegal invocation'')"
  by code_simp


section \<open>Facts about the delivery transport\<close>



lemma storage_log [simp]: "storage (snd (log_to_console r st)) = storage st"
  by (simp add: log_to_console_def)




lemma cache_save [simp]:
  "cachedServerAvailable (saveToLocalStorage r st) = cachedServerAvailable st"
  "lastServerCheck (saveToLocalStorage r st) = lastServerCheck st"
  by (simp_all add: saveToLocalStorage_def write_reports_def save_failed_def Let_def
      split: stored.splits)
















end
